theory Spec2Isabelle
  imports Main "HOL-Library.Char_ord" "HOL-Library.List_Lexorder" "HOL-Library.AList"
begin

section \<open>Python values and strings\<close>

text \<open>
  The values that a cell of a metadata template holds, and their rendering by Python's
  \<^verbatim>\<open>str()\<close>. Identifiers of templates, studies and raw data are Python integers.
\<close>

datatype pyval = PyNone | PyBool bool | PyInt int | PyStr string

definition digit_char :: "nat \<Rightarrow> char" where
  "digit_char d = ''0123456789'' ! d"

function str_nat :: "nat \<Rightarrow> string" where
  "str_nat n = (if n < 10 then [digit_char n] else str_nat (n div 10) @ [digit_char (n mod 10)])"
  by pat_completeness auto
termination
  by (relation "measure id") auto

declare str_nat.simps [simp del]

definition str_int :: "int \<Rightarrow> string" where
  "str_int i = (if i < 0 then CHR ''-'' # str_nat (nat (- i)) else str_nat (nat i))"

fun py_str :: "pyval \<Rightarrow> string" where
  "py_str PyNone = ''None''"
| "py_str (PyBool b) = (if b then ''True'' else ''False'')"
| "py_str (PyInt i) = str_int i"
| "py_str (PyStr s) = s"

definition lower_char :: "char \<Rightarrow> char" where
  "lower_char c = (if CHR ''A'' \<le> c \<and> c \<le> CHR ''Z'' then char_of (of_char c + (32::nat)) else c)"

definition lower :: "string \<Rightarrow> string" where
  "lower s = map lower_char s"

definition startswith :: "string \<Rightarrow> string \<Rightarrow> bool" where
  "startswith s p = (take (length p) s = p)"

section \<open>The relational store behind the connection handler\<close>

text \<open>
  A row is what a dictionary cursor returns: column names with values. A table has its
  declared columns (name and type, as \<^verbatim>\<open>information_schema\<close> lists them) and its rows.
  The store maps table names to tables and keeps the serial counters that
  \<^verbatim>\<open>INSERT ... RETURNING\<close> draws identifiers from.
\<close>

type_synonym row = "(string \<times> pyval) list"

record table =
  t_columns :: "(string \<times> string) list"
  t_rows :: "row list"

record db =
  tables :: "string \<rightharpoonup> table"
  sequences :: "string \<Rightarrow> int"

text \<open>A column that a row does not carry is SQL NULL, which the cursor returns as None.\<close>

definition row_get :: "row \<Rightarrow> string \<Rightarrow> pyval" where
  "row_get r c = (case map_of r c of None \<Rightarrow> PyNone | Some v \<Rightarrow> v)"

text \<open>
  The statements that the templates issue, with the table and column names of the SQL
  text: \<^verbatim>\<open>INSERT INTO t (cols) VALUES ...\<close> (one value tuple per row),
  \<^verbatim>\<open>CREATE TABLE t (col type, ...)\<close>, \<^verbatim>\<open>DROP TABLE t\<close>,
  \<^verbatim>\<open>DELETE FROM t WHERE c = v\<close> and \<^verbatim>\<open>UPDATE t SET c = v WHERE c' = v'\<close>.
\<close>

datatype stmt =
    Insert string "string list" "pyval list list"
  | InsertReturning string string "string list" "pyval list"
  | CreateTable string "(string \<times> string) list"
  | DropTable string
  | DeleteWhere string string pyval
  | UpdateWhere string string pyval string pyval

text \<open>
  The effect of one statement on the store. A statement that names a table the store does
  not have changes nothing.
\<close>

definition next_id :: "db \<Rightarrow> string \<Rightarrow> int" where
  "next_id d t = sequences d t + 1"

fun apply_stmt :: "stmt \<Rightarrow> db \<Rightarrow> db" where
  "apply_stmt (Insert t cols vals) d =
     (case tables d t of
        None \<Rightarrow> d
      | Some tb \<Rightarrow> d\<lparr>tables := (tables d)(t \<mapsto> tb\<lparr>t_rows := t_rows tb @ map (zip cols) vals\<rparr>)\<rparr>)"
| "apply_stmt (InsertReturning t idc cols vals) d =
     (case tables d t of
        None \<Rightarrow> d
      | Some tb \<Rightarrow> d\<lparr>tables := (tables d)(t \<mapsto>
          tb\<lparr>t_rows := t_rows tb @ [(idc, PyInt (next_id d t)) # zip cols vals]\<rparr>),
          sequences := (sequences d)(t := next_id d t)\<rparr>)"
| "apply_stmt (CreateTable t cols) d =
     (case tables d t of
        None \<Rightarrow> d\<lparr>tables := (tables d)(t \<mapsto> \<lparr>t_columns = cols, t_rows = []\<rparr>)\<rparr>
      | Some tb \<Rightarrow> d)"
| "apply_stmt (DropTable t) d = d\<lparr>tables := (tables d)(t := None)\<rparr>"
| "apply_stmt (DeleteWhere t c v) d =
     (case tables d t of
        None \<Rightarrow> d
      | Some tb \<Rightarrow> d\<lparr>tables := (tables d)(t \<mapsto> tb\<lparr>t_rows := filter (\<lambda>r. map_of r c \<noteq> Some v) (t_rows tb)\<rparr>)\<rparr>)"
| "apply_stmt (UpdateWhere t c v c' v') d =
     (case tables d t of
        None \<Rightarrow> d
      | Some tb \<Rightarrow> d\<lparr>tables := (tables d)(t \<mapsto>
          tb\<lparr>t_rows := map (\<lambda>r. if map_of r c' = Some v' then AList.update c v r else r) (t_rows tb)\<rparr>)\<rparr>)"

text \<open>Queries.\<close>

definition select_where :: "db \<Rightarrow> string \<Rightarrow> string \<Rightarrow> pyval \<Rightarrow> row list" where
  "select_where d t c v =
     (case tables d t of None \<Rightarrow> [] | Some tb \<Rightarrow> filter (\<lambda>r. map_of r c = Some v) (t_rows tb))"

text \<open>\<^verbatim>\<open>SELECT * FROM t\<close>: every row with all the declared columns of the table.\<close>

definition select_all :: "db \<Rightarrow> string \<Rightarrow> row list" where
  "select_all d t =
     (case tables d t of
        None \<Rightarrow> []
      | Some tb \<Rightarrow> map (\<lambda>r. map (\<lambda>(c, ty). (c, row_get r c)) (t_columns tb)) (t_rows tb))"

section \<open>Exceptions, the world, and the connection handler\<close>

datatype column_msg =
    InvalidInvestigationType string "string list"
  | InvalidSampleNames "string list"
  | MissingColumns "string set"

datatype exec_msg =
    PreprocessedDataExists int
  | SamplesNotInSampleTemplate "string set"

datatype value_msg =
    NotASubset string string "string set"
  | ValueMsg string

datatype not_implemented_msg =
    FileTypeNotSupported string
  | RawDataFiletypeNotSupported int string

datatype exn =
    QiitaDBUnknownIDError pyval string
  | QiitaDBExecutionError exec_msg
  | QiitaDBColumnError column_msg
  | QiitaDBDuplicateHeaderError "string set"
  | QiitaDBError string
  | QiitaDBLookupError string string
  | IncompetentQiitaDeveloperError
  | QiitaDBNotImplementedError
  | StoreError string
  | KeyError string
  | IndexError
  | TypeError
  | IOError string
  | ValueError value_msg
  | NotImplementedError not_implemented_msg
  | AttributeError string string
  | NameError string

text \<open>
  The calls that change the store, as the connection handler receives them:
  \<^verbatim>\<open>execute\<close> runs one statement on its own, \<^verbatim>\<open>execute_queue\<close> runs a queue of
  statements as one atomic unit. The world keeps the store, the files on disk, and the
  list of such calls in the order they were made.
\<close>

datatype call =
    Execute stmt
  | ExecuteQueue "stmt list"
  | ExecuteQueueFailed "stmt list"

record world =
  store :: db
  files :: "string \<rightharpoonup> string"
  calls :: "call list"

definition execute :: "stmt \<Rightarrow> world \<Rightarrow> world" where
  "execute s w = w\<lparr>store := apply_stmt s (store w), calls := calls w @ [Execute s]\<rparr>"

text \<open>
  Whether the store rejects a queue (a constraint violation, say) is the store's own
  matter: \<open>rejects\<close> stands for its verdict. A rejected queue leaves the store as it was;
  an accepted one applies every statement in order.
\<close>

definition execute_queue ::
  "(stmt list \<Rightarrow> db \<Rightarrow> exn option) \<Rightarrow> stmt list \<Rightarrow> world \<Rightarrow> (exn + unit) \<times> world" where
  "execute_queue rejects q w =
     (case rejects q (store w) of
        Some e \<Rightarrow> (Inl e, w\<lparr>calls := calls w @ [ExecuteQueueFailed q]\<rparr>)
      | None \<Rightarrow> (Inr (), w\<lparr>store := fold apply_stmt q (store w), calls := calls w @ [ExecuteQueue q]\<rparr>))"

text \<open>
  Modelled from the spec: \<^verbatim>\<open>exists_table\<close> is in \<^verbatim>\<open>qiita_db/util.py\<close>;
  \<^verbatim>\<open>get_table_cols\<close> is imported from there but its code is missing. It lists the
  column names of a table, none for a table that does not exist.
\<close>

definition exists_table :: "string \<Rightarrow> world \<Rightarrow> bool" where
  "exists_table t w = (tables (store w) t \<noteq> None)"

definition get_table_cols :: "string \<Rightarrow> world \<Rightarrow> string list" where
  "get_table_cols t w = (case tables (store w) t of None \<Rightarrow> [] | Some tb \<Rightarrow> map fst (t_columns tb))"

section \<open>Metadata templates\<close>

text \<open>The class attributes that the subclasses of MetadataTemplate define.\<close>

record template_class =
  cls_name :: string
  cls_sample_cls :: string
  cls_table :: string
  cls_table_prefix :: string
  cls_column_table :: string
  cls_id_column :: string

definition PrepTemplate :: template_class where
  "PrepTemplate = \<lparr>cls_name = ''PrepTemplate'', cls_sample_cls = ''PrepSample'', cls_table = ''common_prep_info'',
     cls_table_prefix = ''prep_'', cls_column_table = ''prep_columns'',
     cls_id_column = ''prep_template_id''\<rparr>"

definition table_name :: "template_class \<Rightarrow> int \<Rightarrow> exn + string" where
  "table_name cls obj_id =
     (if cls_table_prefix cls = [] then Inl IncompetentQiitaDeveloperError
      else Inr (cls_table_prefix cls @ str_int obj_id))"

definition exists :: "template_class \<Rightarrow> int \<Rightarrow> world \<Rightarrow> exn + bool" where
  "exists cls obj_id w =
     (case table_name cls obj_id of Inl e \<Rightarrow> Inl e | Inr tn \<Rightarrow> Inr (exists_table tn w))"

subsection \<open>delete\<close>

definition MetadataTemplate_delete :: "template_class \<Rightarrow> int \<Rightarrow> world \<Rightarrow> (exn + unit) \<times> world" where
  "MetadataTemplate_delete cls tid w =
     (case exists cls tid w of
        Inl e \<Rightarrow> (Inl e, w)
      | Inr ex \<Rightarrow>
          if \<not> ex then (Inl (QiitaDBUnknownIDError (PyInt tid) (cls_name cls)), w)
          else (case table_name cls tid of
                  Inl e \<Rightarrow> (Inl e, w)
                | Inr tn \<Rightarrow>
                    let w1 = execute (DeleteWhere ''sample_template_filepath'' ''study_id'' (PyInt tid)) w;
                        w2 = execute (DropTable tn) w1;
                        w3 = execute (DeleteWhere (cls_table cls) (cls_id_column cls) (PyInt tid)) w2;
                        w4 = execute (DeleteWhere (cls_column_table cls) (cls_id_column cls) (PyInt tid)) w3
                    in (Inr (), w4)))"

definition preprocessed_data_exists :: "int \<Rightarrow> world \<Rightarrow> bool" where
  "preprocessed_data_exists tid w =
     (select_where (store w) ''prep_template_preprocessed_data'' ''prep_template_id'' (PyInt tid) \<noteq> [])"

definition PrepTemplate_delete :: "int \<Rightarrow> world \<Rightarrow> (exn + unit) \<times> world" where
  "PrepTemplate_delete tid w =
     (case table_name PrepTemplate tid of
        Inl e \<Rightarrow> (Inl e, w)
      | Inr tn \<Rightarrow>
         (case exists PrepTemplate tid w of
            Inl e \<Rightarrow> (Inl e, w)
          | Inr ex \<Rightarrow>
              if \<not> ex then (Inl (QiitaDBUnknownIDError (PyInt tid) (cls_name PrepTemplate)), w)
              else if preprocessed_data_exists tid w
              then (Inl (QiitaDBExecutionError (PreprocessedDataExists tid)), w)
              else
                let w1 = execute (DeleteWhere ''prep_template_filepath'' ''prep_template_id'' (PyInt tid)) w;
                    w2 = execute (DropTable tn) w1;
                    w3 = execute (DeleteWhere (cls_table PrepTemplate) (cls_id_column PrepTemplate) (PyInt tid)) w2;
                    w4 = execute (DeleteWhere (cls_column_table PrepTemplate) (cls_id_column PrepTemplate) (PyInt tid)) w3;
                    w5 = execute (DeleteWhere ''prep_template'' (cls_id_column PrepTemplate) (PyInt tid)) w4
                in (Inr (), w5)))"

subsection \<open>Samples of a template: containment and \<^verbatim>\<open>get\<close>\<close>

record sample =
  s_id :: string
  s_template :: int
  s_dynamic_table :: string

definition get_sample_ids :: "template_class \<Rightarrow> int \<Rightarrow> world \<Rightarrow> pyval set" where
  "get_sample_ids cls tid w =
     (\<lambda>r. row_get r ''sample_id'') ` set (select_where (store w) (cls_table cls) (cls_id_column cls) (PyInt tid))"

definition MetadataTemplate_contains :: "template_class \<Rightarrow> int \<Rightarrow> string \<Rightarrow> world \<Rightarrow> bool" where
  "MetadataTemplate_contains cls tid key w = (PyStr key \<in> get_sample_ids cls tid w)"

definition BaseSample_init :: "template_class \<Rightarrow> string \<Rightarrow> int \<Rightarrow> world \<Rightarrow> exn + sample" where
  "BaseSample_init cls sample_id tid w =
     (if \<not> MetadataTemplate_contains cls tid sample_id w
      then Inl (QiitaDBUnknownIDError (PyStr sample_id) (cls_sample_cls cls))
      else Inr \<lparr>s_id = sample_id, s_template = tid,
                s_dynamic_table = cls_table_prefix cls @ str_int tid\<rparr>)"

definition MetadataTemplate_getitem :: "template_class \<Rightarrow> int \<Rightarrow> string \<Rightarrow> world \<Rightarrow> exn + sample" where
  "MetadataTemplate_getitem cls tid key w =
     (if MetadataTemplate_contains cls tid key w then BaseSample_init cls key tid w
      else Inl (KeyError key))"

text \<open>\<^verbatim>\<open>get\<close> turns a KeyError into None and lets any other exception through.\<close>

definition MetadataTemplate_get :: "template_class \<Rightarrow> int \<Rightarrow> string \<Rightarrow> world \<Rightarrow> exn + sample option" where
  "MetadataTemplate_get cls tid key w =
     (case MetadataTemplate_getitem cls tid key w of
        Inr s \<Rightarrow> Inr (Some s)
      | Inl (KeyError k) \<Rightarrow> Inr None
      | Inl e \<Rightarrow> Inl e)"

definition get_categories :: "sample \<Rightarrow> world \<Rightarrow> exn + string set" where
  "get_categories s w =
     (let cols = set (get_table_cols (s_dynamic_table s) w)
      in if ''sample_id'' \<notin> cols then Inl (KeyError ''sample_id'') else Inr (cols - {''sample_id''}))"

definition BaseSample_getitem :: "sample \<Rightarrow> string \<Rightarrow> world \<Rightarrow> exn + pyval" where
  "BaseSample_getitem s key w =
     (let k = lower key in
      case get_categories s w of
        Inl e \<Rightarrow> Inl e
      | Inr cats \<Rightarrow>
          if k \<notin> cats then Inl (KeyError k)
          else (case select_where (store w) (s_dynamic_table s) ''sample_id'' (PyStr (s_id s)) of
                  [] \<Rightarrow> Inl TypeError
                | r # rs \<Rightarrow> Inr (row_get r k)))"

definition BaseSample_get :: "sample \<Rightarrow> string \<Rightarrow> world \<Rightarrow> exn + pyval" where
  "BaseSample_get s key w =
     (case BaseSample_getitem s key w of
        Inr v \<Rightarrow> Inr v
      | Inl (KeyError k) \<Rightarrow> Inr PyNone
      | Inl e \<Rightarrow> Inl e)"

definition BaseSample_contains :: "sample \<Rightarrow> string \<Rightarrow> world \<Rightarrow> exn + bool" where
  "BaseSample_contains s key w =
     (case get_categories s w of Inl e \<Rightarrow> Inl e | Inr cats \<Rightarrow> Inr (lower key \<in> cats))"

subsection \<open>Writing a template to a tab-delimited file\<close>

fun join :: "string \<Rightarrow> string list \<Rightarrow> string" where
  "join sep [] = []"
| "join sep [x] = x"
| "join sep (x # y # ys) = x @ sep @ join sep (y # ys)"

definition tab :: char where
  "tab = CHR 0x09"

definition newline :: char where
  "newline = CHR 0x0A"

text \<open>A Python dictionary built from key-value pairs: a later pair replaces an earlier one.\<close>

definition dict_of :: "('k \<times> 'v) list \<Rightarrow> ('k \<times> 'v) list" where
  "dict_of ps = fold (\<lambda>(k, v). AList.update k v) ps []"

definition transform_to_dict :: "row list \<Rightarrow> exn + (pyval \<times> row) list" where
  "transform_to_dict rows =
     fold (\<lambda>r acc. case acc of
                      Inl e \<Rightarrow> Inl e
                    | Inr result \<Rightarrow>
                        (let values_dict = dict_of r in
                         case map_of values_dict ''sample_id'' of
                           None \<Rightarrow> Inl (KeyError ''sample_id'')
                         | Some sid \<Rightarrow> Inr (AList.update sid (AList.delete ''sample_id'' values_dict) result)))
          rows (Inr [])"

fun str_key :: "pyval \<times> row \<Rightarrow> (string \<times> row) option" where
  "str_key (PyStr s, d) = Some (s, d)"
| "str_key (v, d) = None"

text \<open>
  The rows are written one by one, so a row that cannot be written leaves the file with
  the lines before it.
\<close>

fun write_rows :: "string list \<Rightarrow> (string \<times> row) list \<Rightarrow> string \<Rightarrow> exn option \<times> string" where
  "write_rows headers [] out = (None, out)"
| "write_rows headers ((sid, d) # rest) out =
     (case filter (\<lambda>h. map_of d h = None) headers of
        h # hs \<Rightarrow> (Some (KeyError h), out)
      | [] \<Rightarrow> write_rows headers rest
                (out @ join [tab] (sid # map (\<lambda>h. py_str (row_get d h)) headers) @ [newline]))"

text \<open>
  \<^verbatim>\<open>to_file\<close>. The sample ids are the keys of the dictionary and are sorted before
  writing. The column \<^verbatim>\<open>sample_id\<close> is a varchar: a key that is not a string (NULL)
  sorts before every string in Python 2 and cannot be joined with tabs, so the TypeError
  comes when only the header line has been written.
\<close>

definition to_file ::
  "template_class \<Rightarrow> int \<Rightarrow> string \<Rightarrow> pyval set option \<Rightarrow> world \<Rightarrow> (exn + unit) \<times> world" where
  "to_file cls tid fp samples w =
     (case table_name cls tid of
        Inl e \<Rightarrow> (Inl e, w)
      | Inr tn \<Rightarrow>
         (case transform_to_dict (select_all (store w) tn) of
            Inl e \<Rightarrow> (Inl e, w)
          | Inr metadata_map0 \<Rightarrow>
              let metadata_map = (case samples of
                                    None \<Rightarrow> metadata_map0
                                  | Some S \<Rightarrow> filter (\<lambda>(sid, d). sid \<in> S) metadata_map0)
              in (case metadata_map of
                    [] \<Rightarrow> (Inl IndexError, w)
                  | (sid0, d0) # rest \<Rightarrow>
                      let headers = sort (map fst d0);
                          head_line = ''sample_name'' @ [tab] @ join [tab] headers @ [newline]
                      in if \<exists>kv \<in> set metadata_map. str_key kv = None
                         then (Inl TypeError, w\<lparr>files := (files w)(fp \<mapsto> head_line)\<rparr>)
                         else (case write_rows headers (sort_key fst (map (the \<circ> str_key) metadata_map)) head_line of
                                 (Some e, out) \<Rightarrow> (Inl e, w\<lparr>files := (files w)(fp \<mapsto> out)\<rparr>)
                               | (None, out) \<Rightarrow> (Inr (), w\<lparr>files := (files w)(fp \<mapsto> out)\<rparr>)))))"

subsection \<open>Reading a tab-delimited template file\<close>

text \<open>
  A data frame: the index (sample ids), the column names, and one list of cells per
  index entry.
\<close>

record dataframe =
  df_index :: "string list"
  df_columns :: "string list"
  df_values :: "pyval list list"

fun split_char :: "char \<Rightarrow> string \<Rightarrow> string list" where
  "split_char c [] = [[]]"
| "split_char c (x # xs) =
     (if x = c then [] # split_char c xs
      else (case split_char c xs of [] \<Rightarrow> [[x]] | y # ys \<Rightarrow> (x # y) # ys))"

definition file_lines :: "string \<Rightarrow> string list" where
  "file_lines s = (let ls = split_char newline s in if last ls = [] then butlast ls else ls)"

text \<open>
  Modelled from the spec: \<^verbatim>\<open>load_template_to_dataframe\<close> is imported from
  \<^verbatim>\<open>qiita_db/metadata_template\<close> but its code is missing. The spec has the template
  file as tab-delimited text that is "re-parsed": the first line holds the name of the
  index column and the column names, every other line a sample id and its values, one
  per column. The cells are read as strings. A line whose number of fields differs from
  the header's is an error.
\<close>

definition parse_template :: "string \<Rightarrow> exn + dataframe" where
  "parse_template content =
     (case file_lines content of
        [] \<Rightarrow> Inl (ValueError (ValueMsg ''empty file''))
      | h # ls \<Rightarrow>
          let header = split_char tab h; rows = map (split_char tab) ls
          in if \<exists>r \<in> set rows. length r \<noteq> length header
             then Inl (ValueError (ValueMsg ''wrong number of fields''))
             else Inr \<lparr>df_index = map hd rows, df_columns = tl header,
                        df_values = map (map PyStr \<circ> tl) rows\<rparr>)"

definition load_template_to_dataframe :: "string \<Rightarrow> world \<Rightarrow> exn + dataframe" where
  "load_template_to_dataframe fp w =
     (case files w fp of None \<Rightarrow> Inl (IOError fp) | Some content \<Rightarrow> parse_template content)"

text \<open>The cell of a data frame at a sample id and a column (the first match of each).\<close>

definition df_cell :: "dataframe \<Rightarrow> string \<Rightarrow> string \<Rightarrow> pyval option" where
  "df_cell df sid col =
     (case map_of (zip (df_index df) (df_values df)) sid of
        None \<Rightarrow> None
      | Some vals \<Rightarrow> map_of (zip (df_columns df) vals) col)"

text \<open>
  Two notions for the properties of \<^verbatim>\<open>to_file\<close>: a string without tab and newline, and
  the line that is written for one sample (without its final newline).
\<close>

definition clean :: "string \<Rightarrow> bool" where
  "clean s \<longleftrightarrow> tab \<notin> set s \<and> newline \<notin> set s"

definition row_line :: "string list \<Rightarrow> string \<times> row \<Rightarrow> string" where
  "row_line headers item = join [tab] (fst item # map (\<lambda>h. py_str (row_get (snd item) h)) headers)"

section \<open>Prep templates\<close>

subsection \<open>Constants and helpers of the bulk load\<close>

definition TARGET_GENE_DATA_TYPES :: "string list" where
  "TARGET_GENE_DATA_TYPES = [''16S'', ''18S'', ''ITS'']"

definition REQUIRED_TARGET_GENE_COLS :: "string set" where
  "REQUIRED_TARGET_GENE_COLS = {''barcodesequence'', ''linkerprimersequence'', ''run_prefix'',
     ''library_construction_protocol'', ''experiment_design_description'', ''platform''}"

definition RENAME_COLS_DICT :: "(string \<times> string) list" where
  "RENAME_COLS_DICT = [(''barcode'', ''barcodesequence''), (''primer'', ''linkerprimersequence'')]"

definition letters :: string where
  "letters = ''abcdefghijklmnopqrstuvwxyzABCDEFGHIJKLMNOPQRSTUVWXYZ''"

definition digits :: string where
  "digits = ''0123456789''"

text \<open>
  What the code takes from its surroundings: the verdict of the store on a queue, the
  terms of the ENA ontology, the keys that a declaration of the class attribute
  \<^verbatim>\<open>translate_cols_dict\<close> would give it, the directory of the \<^verbatim>\<open>templates\<close> mount
  point, and the time stamp that \<^verbatim>\<open>strftime\<close> returns.
\<close>

record env =
  rejects :: "stmt list \<Rightarrow> db \<Rightarrow> exn option"
  ena_terms :: "string list"
  translate_cols_dict :: "string list"
  templates_mountpoint :: string
  timestamp :: string

datatype data_type_arg = DataTypeId int | DataTypeStr string

text \<open>
  The global names of the module \<^verbatim>\<open>prep_template.py\<close>: what its import statements bind
  and the two classes it defines. Python looks a global name up when the statement that
  uses it runs, and raises NameError for one that is neither here nor built in. The
  constants of \<^verbatim>\<open>constants.py\<close>, \<^verbatim>\<open>SampleTemplate\<close> and \<^verbatim>\<open>load_template_to_dataframe\<close>
  are not imported, and the helpers of \<^verbatim>\<open>util.py\<close> are imported without a leading
  underscore.
\<close>

definition prep_template_globals :: "string list" where
  "prep_template_globals =
     [''division'', ''zip'', ''viewitems'', ''PY3'', ''deepcopy'', ''join'', ''strftime'',
      ''partial'', ''basename'', ''StringIO'', ''pd'', ''np'', ''warnings'', ''find_duplicates'',
      ''open_file'', ''IncompetentQiitaDeveloperError'', ''QiitaDBDuplicateError'',
      ''QiitaDBColumnError'', ''QiitaDBUnknownIDError'', ''QiitaDBNotImplementedError'',
      ''QiitaDBDuplicateHeaderError'', ''QiitaDBError'', ''QiitaDBWarning'',
      ''QiitaDBExecutionError'', ''QiitaObject'', ''SQLConnectionHandler'', ''Ontology'',
      ''exists_table'', ''get_table_cols'', ''convert_to_id'', ''convert_from_id'',
      ''get_mountpoint'', ''insert_filepaths'', ''scrub_data'', ''infer_status'', ''Study'',
      ''RawData'', ''LogEntry'', ''BaseSample'', ''MetadataTemplate'', ''as_python_types'',
      ''get_invalid_sample_names'', ''get_datatypes'', ''prefix_sample_names_with_id'',
      ''letters'', ''digits'', ''PrepSample'', ''PrepTemplate'']"

text \<open>
  The attributes of the class PrepTemplate: those that its own body defines and those
  of MetadataTemplate. Of the base class QiitaObject, whose code is missing, the
  constructor and the id are counted in. Reading any other attribute of the class raises
  AttributeError.
\<close>

definition PrepTemplate_attributes :: "string list" where
  "PrepTemplate_attributes =
     [''_table'', ''_table_prefix'', ''_column_table'', ''_id_column'', ''_sample_cls'',
      ''create'', ''validate_investigation_type'', ''_check_template_special_columns'',
      ''delete'', ''data_type'', ''raw_data'', ''preprocessed_data'', ''preprocessing_status'',
      ''investigation_type'', ''study_id'', ''create_qiime_mapping_file'', ''status'',
      ''_check_id'', ''_table_name'', ''exists'', ''_get_sample_ids'', ''__len__'',
      ''__getitem__'', ''__setitem__'', ''__delitem__'', ''__iter__'', ''__contains__'',
      ''keys'', ''values'', ''items'', ''get'', ''_transform_to_dict'', ''to_file'',
      ''to_dataframe'', ''add_filepath'', ''get_filepaths'', ''categories'',
      ''__init__'', ''id'']"

text \<open>
  A lookup gives the object that the name denotes where the name is bound; the second
  argument is that object. For a name that is not bound the lookup raises, whatever is
  written there: the statements that follow such a lookup are kept, with the helper of
  the nearest name in that place, so that each function can be read against its source
  to its last line.
\<close>

definition global_name :: "string \<Rightarrow> 'a \<Rightarrow> exn + 'a" where
  "global_name name v =
     (if name \<in> set prep_template_globals then Inr v else Inl (NameError name))"

definition class_attribute :: "string \<Rightarrow> 'a \<Rightarrow> exn + 'a" where
  "class_attribute name v =
     (if name \<in> set PrepTemplate_attributes then Inr v
      else Inl (AttributeError ''PrepTemplate'' name))"

definition validate_investigation_type :: "env \<Rightarrow> string \<Rightarrow> exn + unit" where
  "validate_investigation_type ev investigation_type =
     (if investigation_type \<notin> set (ena_terms ev)
      then Inl (QiitaDBColumnError (InvalidInvestigationType investigation_type (ena_terms ev)))
      else Inr ())"

text \<open>
  Modelled from the spec: \<^verbatim>\<open>get_invalid_sample_names\<close> and
  \<^verbatim>\<open>prefix_sample_names_with_id\<close> are imported from \<^verbatim>\<open>metadata_template/util.py\<close>,
  which is missing. The spec rejects a sample id that "contains characters outside
  [A-Za-z0-9.]" and has every sample id prefixed "with <study_id>. if not already
  prefixed".
\<close>

definition get_invalid_sample_names :: "string list \<Rightarrow> string list" where
  "get_invalid_sample_names ids =
     filter (\<lambda>s. \<exists>c \<in> set s. c \<notin> set (letters @ digits @ ''.'')) ids"

definition prefix_sample_name :: "int \<Rightarrow> string \<Rightarrow> string" where
  "prefix_sample_name study_id s =
     (if startswith s (str_int study_id @ ''.'') then s else str_int study_id @ ''.'' @ s)"

definition prefix_sample_names_with_id :: "dataframe \<Rightarrow> int \<Rightarrow> dataframe" where
  "prefix_sample_names_with_id md study_id =
     md\<lparr>df_index := map (prefix_sample_name study_id) (df_index md)\<rparr>"

text \<open>\<^verbatim>\<open>find_duplicates\<close> of scikit-bio: the elements that occur more than once.\<close>

definition find_duplicates :: "string list \<Rightarrow> string set" where
  "find_duplicates xs = set (filter (\<lambda>x. 1 < count_list xs x) xs)"

text \<open>
  Modelled from the spec: \<^verbatim>\<open>convert_to_id\<close> and \<^verbatim>\<open>convert_from_id\<close> are imported from
  \<^verbatim>\<open>qiita_db/util.py\<close> but their code is missing. A lookup table \<open>t\<close> has the columns
  \<open>t_id\<close> and \<open>t\<close>; a value that is not there is an error.
\<close>

definition convert_to_id :: "string \<Rightarrow> string \<Rightarrow> world \<Rightarrow> exn + pyval" where
  "convert_to_id v t w =
     (case select_where (store w) t t (PyStr v) of
        [] \<Rightarrow> Inl (QiitaDBLookupError v t)
      | r # rs \<Rightarrow> Inr (row_get r (t @ ''_id'')))"

definition convert_from_id :: "int \<Rightarrow> string \<Rightarrow> world \<Rightarrow> exn + pyval" where
  "convert_from_id i t w =
     (case select_where (store w) t (t @ ''_id'') (PyInt i) of
        [] \<Rightarrow> Inl (QiitaDBLookupError (str_int i) t)
      | r # rs \<Rightarrow> Inr (row_get r t))"

definition rename_columns :: "(string \<times> string) list \<Rightarrow> string list \<Rightarrow> string list" where
  "rename_columns d cols = map (\<lambda>c. case map_of d c of None \<Rightarrow> c | Some c' \<Rightarrow> c') cols"

definition check_template_special_columns ::
  "dataframe \<Rightarrow> pyval \<Rightarrow> exn + (dataframe \<times> string set)" where
  "check_template_special_columns md data_type =
     (case global_name ''TARGET_GENE_DATA_TYPES'' TARGET_GENE_DATA_TYPES of
        Inl e \<Rightarrow> Inl e
      | Inr target_gene_data_types \<Rightarrow>
          if data_type \<in> PyStr ` set target_gene_data_types
          then (case global_name ''RENAME_COLS_DICT'' RENAME_COLS_DICT of
                  Inl e \<Rightarrow> Inl e
                | Inr rename_cols_dict \<Rightarrow>
                    let md' = md\<lparr>df_columns := rename_columns rename_cols_dict (df_columns md)\<rparr>
                    in (case global_name ''REQUIRED_TARGET_GENE_COLS'' REQUIRED_TARGET_GENE_COLS of
                          Inl e \<Rightarrow> Inl e
                        | Inr required \<Rightarrow> Inr (md', required - set (df_columns md'))))
          else Inr (md, {}))"

text \<open>\<^verbatim>\<open>list.remove(x)\<close> raises ValueError when \<open>x\<close> is not in the list.\<close>

definition list_remove :: "string \<Rightarrow> string list \<Rightarrow> exn + string list" where
  "list_remove x xs = (if x \<in> set xs then Inr (remove1 x xs) else Inl (ValueError (ValueMsg x)))"

fun collect :: "(exn + 'a) list \<Rightarrow> exn + 'a list" where
  "collect [] = Inr []"
| "collect (Inl e # rs) = Inl e"
| "collect (Inr x # rs) = (case collect rs of Inl e \<Rightarrow> Inl e | Inr xs \<Rightarrow> Inr (x # xs))"

text \<open>
  Modelled from the spec: \<^verbatim>\<open>as_python_types\<close> and \<^verbatim>\<open>get_datatypes\<close> are imported from
  \<^verbatim>\<open>metadata_template/util.py\<close>, which is missing. The first returns the cells of each
  named column (a KeyError for a column the data frame does not have); the second infers
  one storage type per column, text when the values are of different kinds.
\<close>

definition df_column :: "dataframe \<Rightarrow> string \<Rightarrow> exn + pyval list" where
  "df_column md c =
     (if c \<in> set (df_columns md)
      then Inr (map (\<lambda>vals. row_get (zip (df_columns md) vals) c) (df_values md))
      else Inl (KeyError c))"

definition as_python_types :: "dataframe \<Rightarrow> string list \<Rightarrow> exn + pyval list list" where
  "as_python_types md cols = collect (map (df_column md) cols)"

fun is_bool :: "pyval \<Rightarrow> bool" where
  "is_bool (PyBool b) = True"
| "is_bool v = False"

fun is_int :: "pyval \<Rightarrow> bool" where
  "is_int (PyInt i) = True"
| "is_int v = False"

definition infer_datatype :: "pyval list \<Rightarrow> string" where
  "infer_datatype vals =
     (if vals \<noteq> [] \<and> list_all is_bool vals then ''bool''
      else if vals \<noteq> [] \<and> list_all is_int vals then ''integer''
      else ''varchar'')"

definition get_datatypes :: "pyval list list \<Rightarrow> string list" where
  "get_datatypes columns = map infer_datatype columns"

subsection \<open>The checks of \<^verbatim>\<open>PrepTemplate.create\<close> that come before any write\<close>

text \<open>
  The set of required columns that the template lacks, as \<^verbatim>\<open>create\<close> computes it: the
  special columns and the columns of the shared table that are not among the headers,
  less the keys of \<^verbatim>\<open>translate_cols_dict\<close>. For the special columns \<^verbatim>\<open>create\<close> reads the
  attribute \<^verbatim>\<open>_check_special_columns\<close> of the class; the class defines
  \<^verbatim>\<open>_check_template_special_columns\<close> and no method of that name, and no class here
  declares \<^verbatim>\<open>translate_cols_dict\<close>.
\<close>

definition missing_columns :: "string list \<Rightarrow> string set \<Rightarrow> string list \<Rightarrow> string list \<Rightarrow> string set" where
  "missing_columns translate missing db_cols headers =
     (missing \<union> (set db_cols - set headers)) - set translate"

definition check_investigation_type :: "env \<Rightarrow> string option \<Rightarrow> exn + unit" where
  "check_investigation_type ev investigation_type =
     (case investigation_type of
        None \<Rightarrow> Inr ()
      | Some it \<Rightarrow> validate_investigation_type ev it)"

definition normalize_template :: "dataframe \<Rightarrow> int \<Rightarrow> dataframe" where
  "normalize_template md_template study_id =
     (let md1 = prefix_sample_names_with_id md_template study_id
      in md1\<lparr>df_columns := map lower (df_columns md1)\<rparr>)"

definition resolve_data_type :: "data_type_arg \<Rightarrow> world \<Rightarrow> exn + (pyval \<times> pyval)" where
  "resolve_data_type data_type w =
     (case data_type of
        DataTypeId i \<Rightarrow>
          (case convert_from_id i ''data_type'' w of
             Inl e \<Rightarrow> Inl e
           | Inr s \<Rightarrow> Inr (PyInt i, s))
      | DataTypeStr s \<Rightarrow>
          (case convert_to_id s ''data_type'' w of
             Inl e \<Rightarrow> Inl e
           | Inr i \<Rightarrow> Inr (i, PyStr s)))"

definition required_db_cols :: "world \<Rightarrow> exn + string list" where
  "required_db_cols w =
     (case list_remove ''sample_id'' (get_table_cols (cls_table PrepTemplate) w) of
        Inl e \<Rightarrow> Inl e
      | Inr cols1 \<Rightarrow> list_remove (cls_id_column PrepTemplate) cols1)"

definition create_checks ::
  "env \<Rightarrow> dataframe \<Rightarrow> int \<Rightarrow> data_type_arg \<Rightarrow> string option \<Rightarrow> world
     \<Rightarrow> exn + (dataframe \<times> pyval \<times> string list)" where
  "create_checks ev md_template study_id data_type investigation_type w =
     (case check_investigation_type ev investigation_type of
        Inl e \<Rightarrow> Inl e
      | Inr u \<Rightarrow>
          let invalid_ids = get_invalid_sample_names (df_index md_template) in
          if invalid_ids \<noteq> [] then Inl (QiitaDBColumnError (InvalidSampleNames invalid_ids))
          else
            let md2 = normalize_template md_template study_id
            in if card (set (df_columns md2)) \<noteq> length (df_columns md2)
               then Inl (QiitaDBDuplicateHeaderError (find_duplicates (df_columns md2)))
               else
                 (case resolve_data_type data_type w of
                    Inl e \<Rightarrow> Inl e
                  | Inr (data_type_id, data_type_str) \<Rightarrow>
                      (case class_attribute ''_check_special_columns'' check_template_special_columns of
                         Inl e \<Rightarrow> Inl e
                       | Inr check_special_columns \<Rightarrow>
                      (case check_special_columns md2 data_type_str of
                         Inl e \<Rightarrow> Inl e
                       | Inr (md3, missing) \<Rightarrow>
                      (case required_db_cols w of
                         Inl e \<Rightarrow> Inl e
                       | Inr db_cols \<Rightarrow>
                      (case class_attribute ''translate_cols_dict'' (translate_cols_dict ev) of
                         Inl e \<Rightarrow> Inl e
                       | Inr translate \<Rightarrow>
                           let missing' = missing_columns translate missing db_cols (df_columns md3)
                           in if missing' \<noteq> {}
                              then Inl (QiitaDBColumnError (MissingColumns missing'))
                              else Inr (md3, data_type_id, db_cols)))))))"

subsection \<open>The statements of the queue\<close>

text \<open>
  The dynamic columns are the headers that are not columns of the shared table. Python
  takes them from a set, in an order the language does not fix; here they keep the order
  of the headers.
\<close>

text \<open>Python's \<^verbatim>\<open>zip(*lists)\<close>: the tuples of the i-th elements, as long as every list has one.\<close>

function zip_star :: "'a list list \<Rightarrow> 'a list list" where
  "zip_star ls = (if ls = [] \<or> (\<exists>l \<in> set ls. l = []) then []
                  else map hd ls # zip_star (map tl ls))"
  by pat_completeness auto
termination
proof (relation "measure (\<lambda>ls. length (hd ls))")
  fix ls :: "'a list list"
  assume "\<not> (ls = [] \<or> (\<exists>l \<in> set ls. l = []))"
  then have "ls \<noteq> []" and "hd ls \<noteq> []"
    by (cases ls; auto)+
  then show "(map tl ls, ls) \<in> measure (\<lambda>ls. length (hd ls))"
    by (simp add: hd_map)
qed simp

declare zip_star.simps [simp del]

definition create_statements :: "dataframe \<Rightarrow> int \<Rightarrow> string list \<Rightarrow> exn + stmt list" where
  "create_statements md prep_id db_cols =
     (let sample_ids = df_index md; num_samples = length sample_ids in
      case global_name ''_as_python_types'' as_python_types of
        Inl e \<Rightarrow> Inl e
      | Inr as_python_types1 \<Rightarrow>
     (case as_python_types1 md db_cols of
        Inl e \<Rightarrow> Inl e
      | Inr req_values \<Rightarrow>
          let headers = filter (\<lambda>h. h \<notin> set db_cols) (df_columns md) in
          (case global_name ''_get_datatypes'' get_datatypes of
             Inl e \<Rightarrow> Inl e
           | Inr get_datatypes1 \<Rightarrow>
          (case global_name ''_as_python_types'' as_python_types of
             Inl e \<Rightarrow> Inl e
           | Inr as_python_types2 \<Rightarrow>
          (case as_python_types2 md headers of
             Inl e \<Rightarrow> Inl e
           | Inr dyn_values \<Rightarrow>
               let datatypes = get_datatypes1 dyn_values;
                   tn = cls_table_prefix PrepTemplate @ str_int prep_id
               in Inr
                 [Insert (cls_table PrepTemplate)
                    (cls_id_column PrepTemplate # ''sample_id'' # db_cols)
                    (zip_star (replicate num_samples (PyInt prep_id) # map PyStr sample_ids # req_values)),
                  Insert (cls_column_table PrepTemplate)
                    [cls_id_column PrepTemplate, ''column_name'', ''column_type'']
                    (zip_star [replicate (length headers) (PyInt prep_id), map PyStr headers,
                               map PyStr datatypes]),
                  CreateTable tn ((''sample_id'', ''varchar'') # zip headers datatypes),
                  Insert tn (''sample_id'' # headers)
                    (zip_star (map PyStr sample_ids # dyn_values))])))))"

subsection \<open>File paths of a template\<close>

definition path_join :: "string \<Rightarrow> string \<Rightarrow> string" where
  "path_join a b =
     (if b \<noteq> [] \<and> hd b = CHR ''/'' then b
      else if a = [] \<or> last a = CHR ''/'' then a @ b
      else a @ ''/'' @ b)"

definition basename :: "string \<Rightarrow> string" where
  "basename p = last (split_char (CHR ''/'') p)"

text \<open>
  Modelled from the spec: the class \<^verbatim>\<open>SampleTemplate\<close> ("one per study") is in a module
  that is missing. Its table and id column are the ones that \<^verbatim>\<open>add_filepath\<close> and
  \<^verbatim>\<open>get_filepaths\<close> test for and that \<^verbatim>\<open>create\<close> queries; the prefix of its dynamic
  table and its column table stand for those of any subclass of the base class.
\<close>

definition SampleTemplate :: template_class where
  "SampleTemplate = \<lparr>cls_name = ''SampleTemplate'', cls_sample_cls = ''Sample'',
     cls_table = ''required_sample_info'', cls_table_prefix = ''sample_'',
     cls_column_table = ''study_sample_columns'', cls_id_column = ''study_id''\<rparr>"

definition check_id :: "template_class \<Rightarrow> int \<Rightarrow> world \<Rightarrow> bool" where
  "check_id cls tid w = (select_where (store w) (cls_table cls) (cls_id_column cls) (PyInt tid) \<noteq> [])"

text \<open>
  Modelled from the spec: the constructor of a template is inherited from
  \<^verbatim>\<open>QiitaObject\<close>, whose code is missing; it refuses an id that \<^verbatim>\<open>_check_id\<close> does not
  find.
\<close>

definition MetadataTemplate_init :: "template_class \<Rightarrow> int \<Rightarrow> world \<Rightarrow> exn + int" where
  "MetadataTemplate_init cls tid w =
     (if check_id cls tid w then Inr tid else Inl (QiitaDBUnknownIDError (PyInt tid) (cls_table cls)))"

definition filepath_link :: "template_class \<Rightarrow> exn + (string \<times> string \<times> string)" where
  "filepath_link cls =
     (if cls_table cls = ''required_sample_info''
      then Inr (''sample_template'', ''sample_template_filepath'', ''study_id'')
      else if cls_table cls = ''common_prep_info''
      then Inr (''prep_template'', ''prep_template_filepath'', ''prep_template_id'')
      else Inl QiitaDBNotImplementedError)"

text \<open>
  Modelled from the spec: \<^verbatim>\<open>insert_filepaths\<close> is imported from \<^verbatim>\<open>qiita_db/util.py\<close>
  but its code is missing. It records the file, by its name under the mount point, in
  the table \<^verbatim>\<open>filepath\<close> and returns the new filepath id; \<^verbatim>\<open>add_filepath\<close> then links
  the template to it. Neither statement fails here, so the handler of \<^verbatim>\<open>add_filepath\<close>
  that logs an exception and raises it again has nothing to catch.
\<close>

definition add_filepath :: "template_class \<Rightarrow> int \<Rightarrow> string \<Rightarrow> world \<Rightarrow> (exn + unit) \<times> world" where
  "add_filepath cls tid filepath w =
     (case filepath_link cls of
        Inl e \<Rightarrow> (Inl e, w)
      | Inr (fp_type, link_table, column) \<Rightarrow>
          (case convert_to_id fp_type ''filepath_type'' w of
             Inl e \<Rightarrow> (Inl e, w)
           | Inr fp_id \<Rightarrow>
               let fpp_id = next_id (store w) ''filepath'';
                   w1 = execute (InsertReturning ''filepath'' ''filepath_id''
                                   [''filepath'', ''filepath_type_id'']
                                   [PyStr (basename filepath), fp_id]) w;
                   w2 = execute (Insert link_table [column, ''filepath_id'']
                                   [[PyInt tid, PyInt fpp_id]]) w1
               in (Inr (), w2)))"

fun int_of :: "pyval \<Rightarrow> int" where
  "int_of (PyInt i) = i"
| "int_of v = 0"

definition get_filepaths :: "env \<Rightarrow> template_class \<Rightarrow> int \<Rightarrow> world \<Rightarrow> exn + (pyval \<times> string) list" where
  "get_filepaths ev cls tid w =
     (case filepath_link cls of
        Inl e \<Rightarrow> Inl e
      | Inr (fp_type, link_table, column) \<Rightarrow>
          let linked = (\<lambda>r. row_get r ''filepath_id'') ` set (select_where (store w) link_table column (PyInt tid));
              found = filter (\<lambda>r. row_get r ''filepath_id'' \<in> linked) (select_all (store w) ''filepath'');
              ordered = rev (sort_key (\<lambda>r. int_of (row_get r ''filepath_id'')) found)
          in Inr (map (\<lambda>r. (row_get r ''filepath_id'',
                             path_join (templates_mountpoint ev) (py_str (row_get r ''filepath''))))
                    ordered))"

subsection \<open>The QIIME mapping file\<close>

definition study_id_of :: "int \<Rightarrow> world \<Rightarrow> exn + pyval" where
  "study_id_of tid w =
     (case concat (map (\<lambda>p. map (\<lambda>s. row_get s ''study_id'')
                              (select_where (store w) ''study_raw_data'' ''raw_data_id''
                                 (row_get p ''raw_data_id'')))
                     (select_where (store w) ''prep_template'' ''prep_template_id'' (PyInt tid))) of
        [] \<Rightarrow> Inl (QiitaDBError (str_int tid))
      | v # vs \<Rightarrow> Inr v)"

definition rename_cols :: "(string \<times> string) list" where
  "rename_cols = [(''barcode'', ''BarcodeSequence''), (''barcodesequence'', ''BarcodeSequence''),
     (''primer'', ''LinkerPrimerSequence''), (''linkerprimersequence'', ''LinkerPrimerSequence''),
     (''description'', ''Description'')]"

text \<open>
  \<^verbatim>\<open>pt.join(st, lsuffix="_prep")\<close>: every row of the prep template with the row of the
  sample template that has its index; a column name that both have takes the suffix on
  the left.
\<close>

definition df_join :: "dataframe \<Rightarrow> dataframe \<Rightarrow> dataframe" where
  "df_join pt st =
     (let rows = concat (map (\<lambda>(sid, vals).
                    map (\<lambda>(sid', vals'). (sid, vals @ vals'))
                      (filter (\<lambda>(sid', vals'). sid' = sid) (zip (df_index st) (df_values st))))
                  (zip (df_index pt) (df_values pt)))
      in \<lparr>df_index = map fst rows,
          df_columns = map (\<lambda>c. if c \<in> set (df_columns st) then c @ ''_prep'' else c) (df_columns pt)
                       @ df_columns st,
          df_values = map snd rows\<rparr>)"

text \<open>\<^verbatim>\<open>mapping[new_cols]\<close>: for each label in turn, the columns that carry it.\<close>

definition df_select :: "dataframe \<Rightarrow> string list \<Rightarrow> dataframe" where
  "df_select df labels =
     (let positions = concat (map (\<lambda>l. filter (\<lambda>i. df_columns df ! i = l) [0..<length (df_columns df)]) labels)
      in df\<lparr>df_columns := map (\<lambda>i. df_columns df ! i) positions,
             df_values := map (\<lambda>vals. map (\<lambda>i. vals ! i) (filter (\<lambda>i. i < length vals) positions))
                            (df_values df)\<rparr>)"

definition to_csv :: "dataframe \<Rightarrow> string \<Rightarrow> string" where
  "to_csv df index_label =
     concat (map (\<lambda>fields. join [tab] fields @ [newline])
               ((index_label # df_columns df)
                # map (\<lambda>(sid, vals). sid # map py_str vals) (zip (df_index df) (df_values df))))"

definition int_id :: "pyval \<Rightarrow> exn + int" where
  "int_id v = (case v of PyInt i \<Rightarrow> Inr i | _ \<Rightarrow> Inl TypeError)"

definition create_qiime_mapping_file ::
  "env \<Rightarrow> int \<Rightarrow> string \<Rightarrow> world \<Rightarrow> (exn + string) \<times> world" where
  "create_qiime_mapping_file ev tid prep_template_fp w =
     (case global_name ''SampleTemplate'' SampleTemplate of
        Inl e \<Rightarrow> (Inl e, w)
      | Inr sample_template_cls \<Rightarrow>
     (case study_id_of tid w of
        Inl e \<Rightarrow> (Inl e, w)
      | Inr sv \<Rightarrow>
     (case int_id sv of
        Inl e \<Rightarrow> (Inl e, w)
      | Inr study_id \<Rightarrow>
     (case MetadataTemplate_init sample_template_cls study_id w of
        Inl e \<Rightarrow> (Inl e, w)
      | Inr st_id \<Rightarrow>
     (case get_filepaths ev sample_template_cls st_id w of
        Inl e \<Rightarrow> (Inl e, w)
      | Inr [] \<Rightarrow> (Inl IndexError, w)
      | Inr ((fpid, sample_template_fp) # fps) \<Rightarrow>
     (case global_name ''load_template_to_dataframe'' load_template_to_dataframe of
        Inl e \<Rightarrow> (Inl e, w)
      | Inr load1 \<Rightarrow>
     (case load1 sample_template_fp w of
        Inl e \<Rightarrow> (Inl e, w)
      | Inr st \<Rightarrow>
     (case global_name ''load_template_to_dataframe'' load_template_to_dataframe of
        Inl e \<Rightarrow> (Inl e, w)
      | Inr load2 \<Rightarrow>
     (case load2 prep_template_fp w of
        Inl e \<Rightarrow> (Inl e, w)
      | Inr pt \<Rightarrow>
          let st_sample_names = set (df_index st); pt_sample_names = set (df_index pt) in
          if \<not> pt_sample_names \<subseteq> st_sample_names
          then (Inl (ValueError (NotASubset sample_template_fp prep_template_fp
                                   (pt_sample_names - st_sample_names))), w)
          else
            let mapping0 = df_join pt st;
                mapping = mapping0\<lparr>df_columns := rename_columns rename_cols (df_columns mapping0)\<rparr> in
            (case list_remove ''BarcodeSequence'' (df_columns mapping) of
               Inl e \<Rightarrow> (Inl e, w)
             | Inr cols1 \<Rightarrow>
            (case list_remove ''LinkerPrimerSequence'' cols1 of
               Inl e \<Rightarrow> (Inl e, w)
             | Inr cols2 \<Rightarrow>
            (case list_remove ''Description'' cols2 of
               Inl e \<Rightarrow> (Inl e, w)
             | Inr cols \<Rightarrow>
                 let new_cols = [''BarcodeSequence'', ''LinkerPrimerSequence''] @ cols @ [''Description''];
                     filepath = path_join (templates_mountpoint ev)
                                  (str_int study_id @ ''_prep_'' @ str_int tid @ ''_qiime_''
                                   @ timestamp ev @ ''.txt'');
                     w1 = w\<lparr>files := (files w)(filepath \<mapsto> to_csv (df_select mapping new_cols) ''#SampleID'')\<rparr>
                 in (case add_filepath PrepTemplate tid filepath w1 of
                       (Inl e, w2) \<Rightarrow> (Inl e, w2)
                     | (Inr u, w2) \<Rightarrow> (Inr filepath, w2))))))))))))))"

subsection \<open>\<^verbatim>\<open>PrepTemplate.create\<close>\<close>

definition study_sample_ids :: "int \<Rightarrow> world \<Rightarrow> pyval set" where
  "study_sample_ids study_id w =
     (\<lambda>r. row_get r ''sample_id'') ` set (select_where (store w) ''required_sample_info'' ''study_id'' (PyInt study_id))"

definition insert_prep_template :: "pyval \<Rightarrow> int \<Rightarrow> string option \<Rightarrow> stmt" where
  "insert_prep_template data_type_id raw_data_id investigation_type =
     InsertReturning ''prep_template'' ''prep_template_id''
       [''data_type_id'', ''raw_data_id'', ''investigation_type'']
       [data_type_id, PyInt raw_data_id,
        (case investigation_type of None \<Rightarrow> PyNone | Some it \<Rightarrow> PyStr it)]"

text \<open>What follows a committed queue: the backup file, its link, and the mapping file.\<close>

definition create_backup :: "env \<Rightarrow> int \<Rightarrow> int \<Rightarrow> world \<Rightarrow> (exn + int) \<times> world" where
  "create_backup ev study_id prep_id w =
     (let fp = path_join (templates_mountpoint ev)
                 (str_int study_id @ ''_prep_'' @ str_int prep_id @ ''_'' @ timestamp ev @ ''.txt'')
      in case MetadataTemplate_init PrepTemplate prep_id w of
           Inl e \<Rightarrow> (Inl e, w)
         | Inr pt \<Rightarrow>
        (case to_file PrepTemplate pt fp None w of
           (Inl e, w1) \<Rightarrow> (Inl e, w1)
         | (Inr u, w1) \<Rightarrow>
        (case add_filepath PrepTemplate pt fp w1 of
           (Inl e, w2) \<Rightarrow> (Inl e, w2)
         | (Inr u, w2) \<Rightarrow>
        (case create_qiime_mapping_file ev pt fp w2 of
           (Inl e, w3) \<Rightarrow> (Inl e, w3)
         | (Inr mapping_fp, w3) \<Rightarrow> (Inr pt, w3)))))"

definition PrepTemplate_create ::
  "env \<Rightarrow> dataframe \<Rightarrow> int \<Rightarrow> int \<Rightarrow> data_type_arg \<Rightarrow> string option \<Rightarrow> world
     \<Rightarrow> (exn + int) \<times> world" where
  "PrepTemplate_create ev md_template raw_data_id study_id data_type investigation_type w =
     (case create_checks ev md_template study_id data_type investigation_type w of
        Inl e \<Rightarrow> (Inl e, w)
      | Inr (md, data_type_id, db_cols) \<Rightarrow>
          let prep_id = next_id (store w) ''prep_template'';
              w1 = execute (insert_prep_template data_type_id raw_data_id investigation_type) w
          in (case create_statements md prep_id db_cols of
                Inl e \<Rightarrow> (Inl e, w1)
              | Inr queue \<Rightarrow>
                  (case execute_queue (rejects ev) queue w1 of
                     (Inl e, w2) \<Rightarrow>
                       let w3 = execute (DeleteWhere ''prep_template'' (cls_id_column PrepTemplate)
                                           (PyInt prep_id)) w2;
                           prep_samples = set (df_index md);
                           unknown_samples = {s \<in> prep_samples. PyStr s \<notin> study_sample_ids study_id w3}
                       in if unknown_samples \<noteq> {}
                          then (Inl (QiitaDBExecutionError (SamplesNotInSampleTemplate unknown_samples)), w3)
                          else (Inl e, w3)
                   | (Inr u, w2) \<Rightarrow> create_backup ev study_id prep_id w2)))"

section \<open>The preprocessing job graph\<close>

record params =
  p_table :: string
  p_id :: int
  p_str :: string

datatype insert_kind = InsertFastq | InsertFasta

datatype job =
    ShellCommand string
  | GenerateDemuxFile string
  | InsertPreprocessedData insert_kind int params int string

record preprocessor =
  pp_raw_data :: "int option"
  pp_nodes :: "(string \<times> job \<times> bool) list"
  pp_edges :: "(string \<times> string) list"
  pp_dirpaths_to_remove :: "string list"

text \<open>
  What the command generators take from their surroundings: the file paths of a raw data
  with their types, the directory that \<^verbatim>\<open>mkdtemp\<close> makes for a prefix, and the minimal
  mapping files (path and content) that \<^verbatim>\<open>_get_qiime_minimal_mapping\<close> writes for a
  prep template into a directory.
\<close>

record pipeline_env =
  raw_filepaths :: "int \<Rightarrow> world \<Rightarrow> (string \<times> string) list"
  mkdtemp :: "string \<Rightarrow> string"
  minimal_mapping :: "int \<Rightarrow> string \<Rightarrow> world \<Rightarrow> (string \<times> string) list"

text \<open>
  Modelled from the spec: the class \<^verbatim>\<open>RawData\<close> is missing. Its file type is read from
  the store; its preprocessing status is "mutated only by the Job-Graph Executor" and is
  written as \<^verbatim>\<open>PrepTemplate.preprocessing_status\<close> writes its own: one of the known
  states, one UPDATE of the row.
\<close>

definition raw_data_filetype :: "int \<Rightarrow> world \<Rightarrow> exn + pyval" where
  "raw_data_filetype rid w =
     (case concat (map (\<lambda>r. map (\<lambda>f. row_get f ''type'')
                              (select_where (store w) ''filetype'' ''filetype_id'' (row_get r ''filetype_id'')))
                     (select_where (store w) ''raw_data'' ''raw_data_id'' (PyInt rid))) of
        [] \<Rightarrow> Inl TypeError
      | v # vs \<Rightarrow> Inr v)"

definition known_state :: "string \<Rightarrow> bool" where
  "known_state state \<longleftrightarrow>
     state \<in> {''not_preprocessed'', ''preprocessing'', ''success''} \<or> startswith state ''failed:''"

definition set_preprocessing_status :: "string \<Rightarrow> string \<Rightarrow> int \<Rightarrow> string \<Rightarrow> world \<Rightarrow> (exn + unit) \<times> world" where
  "set_preprocessing_status t id_column oid state w =
     (if \<not> known_state state then (Inl (ValueError (ValueMsg state)), w)
      else (Inr (), execute (UpdateWhere t ''preprocessing_status'' (PyStr state) id_column (PyInt oid)) w))"

definition preprocessing_status :: "string \<Rightarrow> string \<Rightarrow> int \<Rightarrow> world \<Rightarrow> exn + pyval" where
  "preprocessing_status t id_column oid w =
     (case select_where (store w) t id_column (PyInt oid) of
        [] \<Rightarrow> Inl TypeError
      | r # rs \<Rightarrow> Inr (row_get r ''preprocessing_status''))"

definition write_files :: "(string \<times> string) list \<Rightarrow> world \<Rightarrow> world" where
  "write_files fs w = w\<lparr>files := fold (\<lambda>(fp, content) m. m(fp \<mapsto> content)) fs (files w)\<rparr>"

definition get_preprocess_fastq_cmd ::
  "pipeline_env \<Rightarrow> int \<Rightarrow> params \<Rightarrow> world \<Rightarrow> (exn + (string \<times> string)) \<times> world" where
  "get_preprocess_fastq_cmd pe rid ps w =
     (let fps = raw_filepaths pe rid w in
      case find (\<lambda>(fp, fp_type). fp_type \<notin> {''raw_forward_seqs'', ''raw_reverse_seqs'', ''raw_barcodes''}) fps of
        Some (fp, fp_type) \<Rightarrow> (Inl (NotImplementedError (FileTypeNotSupported fp_type)), w)
      | None \<Rightarrow>
          let forward_seqs = map fst (filter (\<lambda>(fp, t). t = ''raw_forward_seqs'') fps);
              reverse_seqs = map fst (filter (\<lambda>(fp, t). t = ''raw_reverse_seqs'') fps);
              barcode_fps = map fst (filter (\<lambda>(fp, t). t = ''raw_barcodes'') fps)
          in if length forward_seqs = 0 then (Inl (ValueError (ValueMsg (str_int rid))), w)
             else if length barcode_fps \<noteq> length forward_seqs
             then (Inl (ValueError (ValueMsg (str_nat (length barcode_fps) @ '' != '' @ str_nat (length forward_seqs)))), w)
             else (case MetadataTemplate_init PrepTemplate rid w of
                     Inl e \<Rightarrow> (Inl e, w)
                   | Inr pt \<Rightarrow>
                       let prep_dir = mkdtemp pe (''MMF_'' @ str_int pt);
                           mapping = minimal_mapping pe pt prep_dir w;
                           w1 = write_files mapping w;
                           output_dir = mkdtemp pe ''slq_out'';
                           cmd = ''split_libraries_fastq.py --store_demultiplexed_fastq -i ''
                                 @ join '','' (sort forward_seqs) @ '' -b '' @ join '','' (sort barcode_fps)
                                 @ '' -m '' @ join '','' (sort (map fst mapping))
                                 @ '' -o '' @ output_dir @ '' '' @ p_str ps
                       in (Inr (cmd, output_dir), w1)))"

text \<open>
  The generator for FASTA, as its code stands: both tests of the file type compare with
  the empty string, so the quality files are never collected.
\<close>

definition get_preprocess_fasta_cmd ::
  "pipeline_env \<Rightarrow> int \<Rightarrow> params \<Rightarrow> world \<Rightarrow> (exn + (string \<times> string)) \<times> world" where
  "get_preprocess_fasta_cmd pe rid ps w =
     (let fps = raw_filepaths pe rid w in
      case find (\<lambda>(fp, fp_type). fp_type \<noteq> []) fps of
        Some (fp, fp_type) \<Rightarrow> (Inl (NotImplementedError (FileTypeNotSupported fp_type)), w)
      | None \<Rightarrow>
          let seqs_fps = map fst fps; qual_fps = [] in
          if length seqs_fps = 0 then (Inl (ValueError (ValueMsg (str_int rid))), w)
          else if length seqs_fps \<noteq> length qual_fps
          then (Inl (ValueError (ValueMsg (str_nat (length seqs_fps) @ '' != '' @ str_nat (length qual_fps)))), w)
          else (case MetadataTemplate_init PrepTemplate rid w of
                  Inl e \<Rightarrow> (Inl e, w)
                | Inr pt \<Rightarrow>
                    let prep_dir = mkdtemp pe (''MMF_'' @ str_int pt);
                        mapping = minimal_mapping pe pt prep_dir w;
                        w1 = write_files mapping w;
                        output_dir = mkdtemp pe ''sl_out''
                    in (case sort (map fst mapping) of
                          [] \<Rightarrow> (Inl IndexError, w1)
                        | m # ms \<Rightarrow>
                            (Inr (''split_libraries.py -d -f '' @ join '','' (sort seqs_fps)
                                  @ '' -q '' @ join '','' (sort qual_fps) @ '' -m '' @ m
                                  @ '' -o '' @ output_dir @ '' '' @ p_str ps, output_dir), w1))))"

definition add_node :: "string \<Rightarrow> job \<Rightarrow> bool \<Rightarrow> preprocessor \<Rightarrow> preprocessor" where
  "add_node name j requires_deps pp = pp\<lparr>pp_nodes := AList.update name (j, requires_deps) (pp_nodes pp)\<rparr>"

definition add_edge :: "string \<Rightarrow> string \<Rightarrow> preprocessor \<Rightarrow> preprocessor" where
  "add_edge a b pp = pp\<lparr>pp_edges := List.insert (a, b) (pp_edges pp)\<rparr>"

text \<open>
  \<^verbatim>\<open>StudyPreprocessor._construct_job_graph\<close>. The status of the raw data is written
  first; the file type is looked at after that.
\<close>

definition construct_job_graph ::
  "pipeline_env \<Rightarrow> int \<Rightarrow> int \<Rightarrow> params \<Rightarrow> preprocessor \<Rightarrow> world
     \<Rightarrow> (exn + unit) \<times> preprocessor \<times> world" where
  "construct_job_graph pe study rid ps pp w =
     (let pp1 = pp\<lparr>pp_raw_data := Some rid\<rparr> in
      case set_preprocessing_status ''raw_data'' ''raw_data_id'' rid ''preprocessing'' w of
        (Inl e, w1) \<Rightarrow> (Inl e, pp1, w1)
      | (Inr u, w1) \<Rightarrow>
          (case raw_data_filetype rid w1 of
             Inl e \<Rightarrow> (Inl e, pp1, w1)
           | Inr filetype \<Rightarrow>
               (case (if filetype = PyStr ''FASTQ'' then Inr (get_preprocess_fastq_cmd, InsertFastq)
                      else if filetype = PyStr ''FASTA'' then Inr (get_preprocess_fasta_cmd, InsertFasta)
                      else Inl (NotImplementedError (RawDataFiletypeNotSupported rid (py_str filetype)))) of
                  Inl e \<Rightarrow> (Inl e, pp1, w1)
                | Inr (cmd_generator, insert_preprocessed_data) \<Rightarrow>
                    (case cmd_generator pe rid ps w1 of
                       (Inl e, w2) \<Rightarrow> (Inl e, pp1, w2)
                     | (Inr (cmd, output_dir), w2) \<Rightarrow>
                         let pp2 = add_node ''PREPROCESS'' (ShellCommand cmd) False pp1;
                             pp3 = add_node ''GEN_DEMUX_FILE'' (GenerateDemuxFile output_dir) False pp2;
                             pp4 = add_edge ''PREPROCESS'' ''GEN_DEMUX_FILE'' pp3;
                             pp5 = add_node ''INSERT_PREPROCESSED''
                                     (InsertPreprocessedData insert_preprocessed_data study ps rid output_dir)
                                     False pp4;
                             pp6 = add_edge ''GEN_DEMUX_FILE'' ''INSERT_PREPROCESSED'' pp5;
                             pp7 = pp6\<lparr>pp_dirpaths_to_remove := pp_dirpaths_to_remove pp6 @ [output_dir]\<rparr>
                         in (Inr (), pp7, w2)))))"

section \<open>A small store to run the operations on\<close>

text \<open>
  Study 1 has a sample template with the samples \<open>1.SKB1\<close> and \<open>1.SKB2\<close>; raw data 1
  belongs to it and has the prep template 1, with the same two samples and no
  preprocessed data.
\<close>

definition example_tables :: "(string \<times> table) list" where
  "example_tables =
     [(''prep_template'',
         \<lparr>t_columns = [(''prep_template_id'', ''bigserial''), (''data_type_id'', ''bigint''),
                       (''raw_data_id'', ''bigint''), (''investigation_type'', ''varchar''),
                       (''preprocessing_status'', ''varchar'')],
          t_rows = [[(''prep_template_id'', PyInt 1), (''data_type_id'', PyInt 2),
                     (''raw_data_id'', PyInt 1), (''investigation_type'', PyNone),
                     (''preprocessing_status'', PyStr ''not_preprocessed'')]]\<rparr>),
      (''common_prep_info'',
         \<lparr>t_columns = [(''prep_template_id'', ''bigint''), (''sample_id'', ''varchar''),
                       (''center_name'', ''varchar'')],
          t_rows = [[(''prep_template_id'', PyInt 1), (''sample_id'', PyStr ''1.SKB1''),
                     (''center_name'', PyStr ''ANL'')],
                    [(''prep_template_id'', PyInt 1), (''sample_id'', PyStr ''1.SKB2''),
                     (''center_name'', PyStr ''ANL'')]]\<rparr>),
      (''prep_columns'',
         \<lparr>t_columns = [(''prep_template_id'', ''bigint''), (''column_name'', ''varchar''),
                       (''column_type'', ''varchar'')],
          t_rows = [[(''prep_template_id'', PyInt 1), (''column_name'', PyStr ''barcodesequence''),
                     (''column_type'', PyStr ''varchar'')]]\<rparr>),
      (''prep_1'',
         \<lparr>t_columns = [(''sample_id'', ''varchar''), (''barcodesequence'', ''varchar'')],
          t_rows = [[(''sample_id'', PyStr ''1.SKB1''), (''barcodesequence'', PyStr ''ACGT'')],
                    [(''sample_id'', PyStr ''1.SKB2''), (''barcodesequence'', PyStr ''TTGA'')]]\<rparr>),
      (''prep_template_filepath'',
         \<lparr>t_columns = [(''prep_template_id'', ''bigint''), (''filepath_id'', ''bigint'')],
          t_rows = [[(''prep_template_id'', PyInt 1), (''filepath_id'', PyInt 2)]]\<rparr>),
      (''prep_template_preprocessed_data'',
         \<lparr>t_columns = [(''prep_template_id'', ''bigint''), (''preprocessed_data_id'', ''bigint'')],
          t_rows = []\<rparr>),
      (''required_sample_info'',
         \<lparr>t_columns = [(''study_id'', ''bigint''), (''sample_id'', ''varchar'')],
          t_rows = [[(''study_id'', PyInt 1), (''sample_id'', PyStr ''1.SKB1'')],
                    [(''study_id'', PyInt 1), (''sample_id'', PyStr ''1.SKB2'')]]\<rparr>),
      (''study_sample_columns'',
         \<lparr>t_columns = [(''study_id'', ''bigint''), (''column_name'', ''varchar''),
                       (''column_type'', ''varchar'')],
          t_rows = [[(''study_id'', PyInt 1), (''column_name'', PyStr ''ph''),
                     (''column_type'', PyStr ''integer'')]]\<rparr>),
      (''sample_1'',
         \<lparr>t_columns = [(''sample_id'', ''varchar''), (''ph'', ''integer'')],
          t_rows = [[(''sample_id'', PyStr ''1.SKB1''), (''ph'', PyInt 7)],
                    [(''sample_id'', PyStr ''1.SKB2''), (''ph'', PyInt 6)]]\<rparr>),
      (''sample_template_filepath'',
         \<lparr>t_columns = [(''study_id'', ''bigint''), (''filepath_id'', ''bigint'')],
          t_rows = [[(''study_id'', PyInt 1), (''filepath_id'', PyInt 1)]]\<rparr>),
      (''filepath'',
         \<lparr>t_columns = [(''filepath_id'', ''bigserial''), (''filepath'', ''varchar''),
                       (''filepath_type_id'', ''bigint'')],
          t_rows = [[(''filepath_id'', PyInt 1), (''filepath'', PyStr ''1_sample.txt''),
                     (''filepath_type_id'', PyInt 1)],
                    [(''filepath_id'', PyInt 2), (''filepath'', PyStr ''1_prep_1.txt''),
                     (''filepath_type_id'', PyInt 2)]]\<rparr>),
      (''filepath_type'',
         \<lparr>t_columns = [(''filepath_type_id'', ''bigserial''), (''filepath_type'', ''varchar'')],
          t_rows = [[(''filepath_type_id'', PyInt 1), (''filepath_type'', PyStr ''sample_template'')],
                    [(''filepath_type_id'', PyInt 2), (''filepath_type'', PyStr ''prep_template'')]]\<rparr>),
      (''data_type'',
         \<lparr>t_columns = [(''data_type_id'', ''bigserial''), (''data_type'', ''varchar'')],
          t_rows = [[(''data_type_id'', PyInt 1), (''data_type'', PyStr ''16S'')],
                    [(''data_type_id'', PyInt 2), (''data_type'', PyStr ''Metagenomic'')]]\<rparr>),
      (''study_raw_data'',
         \<lparr>t_columns = [(''study_id'', ''bigint''), (''raw_data_id'', ''bigint'')],
          t_rows = [[(''study_id'', PyInt 1), (''raw_data_id'', PyInt 1)]]\<rparr>),
      (''filetype'',
         \<lparr>t_columns = [(''filetype_id'', ''bigserial''), (''type'', ''varchar'')],
          t_rows = [[(''filetype_id'', PyInt 1), (''type'', PyStr ''FASTQ'')],
                    [(''filetype_id'', PyInt 2), (''type'', PyStr ''SFF'')]]\<rparr>),
      (''raw_data'',
         \<lparr>t_columns = [(''raw_data_id'', ''bigserial''), (''filetype_id'', ''bigint''),
                       (''preprocessing_status'', ''varchar'')],
          t_rows = [[(''raw_data_id'', PyInt 1), (''filetype_id'', PyInt 2),
                     (''preprocessing_status'', PyStr ''not_preprocessed'')]]\<rparr>)]"

definition example_sequences :: "string \<Rightarrow> int" where
  "example_sequences t = (if t = ''filepath'' then 2 else 1)"

definition example_world :: world where
  "example_world =
     \<lparr>store = \<lparr>tables = map_of example_tables, sequences = example_sequences\<rparr>,
      files = [''/templates/1_sample.txt'' \<mapsto>
                 ''sample_name'' @ [tab] @ ''ph'' @ [newline]
                 @ ''1.SKB1'' @ [tab] @ ''7'' @ [newline]
                 @ ''1.SKB2'' @ [tab] @ ''6'' @ [newline]],
      calls = []\<rparr>"

definition example_env :: env where
  "example_env =
     \<lparr>rejects = (\<lambda>q d. None), ena_terms = [''Metagenomics'', ''Amplicon''],
      translate_cols_dict = [''emp_status_id''], templates_mountpoint = ''/templates'',
      timestamp = ''20150101-120000''\<rparr>"

definition example_world_preprocessed :: world where
  "example_world_preprocessed =
     example_world\<lparr>store := apply_stmt
        (Insert ''prep_template_preprocessed_data'' [''prep_template_id'', ''preprocessed_data_id'']
           [[PyInt 1, PyInt 1]])
        (store example_world)\<rparr>"

definition example_md :: dataframe where
  "example_md = \<lparr>df_index = [''SKB1'', ''1.SKB2''], df_columns = [''Center_Name'', ''Barcode''],
     df_values = [[PyStr ''ANL'', PyStr ''AC''], [PyStr ''ANL'', PyStr ''GT'']]\<rparr>"

definition example_md_orphan :: dataframe where
  "example_md_orphan = \<lparr>df_index = [''SKB1'', ''SKB9''], df_columns = [''Center_Name'', ''Barcode''],
     df_values = [[PyStr ''ANL'', PyStr ''AC''], [PyStr ''ANL'', PyStr ''GT'']]\<rparr>"

definition example_md_missing :: dataframe where
  "example_md_missing = \<lparr>df_index = [''SKB1'', ''1.SKB2''], df_columns = [''Barcode'', ''Primer''],
     df_values = [[PyStr ''AC'', PyStr ''GG''], [PyStr ''GT'', PyStr ''GG'']]\<rparr>"

definition example_md_study5 :: dataframe where
  "example_md_study5 = \<lparr>df_index = [''SKB1'', ''5.SKB2''], df_columns = [''Center_Name'', ''Barcode''],
     df_values = [[PyStr ''ANL'', PyStr ''AC''], [PyStr ''ANL'', PyStr ''GT'']]\<rparr>"

definition example_world_prep_file :: world where
  "example_world_prep_file =
     example_world\<lparr>files := (files example_world)(''/templates/1_prep_1.txt'' \<mapsto>
        ''sample_name'' @ [tab] @ ''barcodesequence'' @ [newline]
        @ ''1.SKB1'' @ [tab] @ ''ACGT'' @ [newline]
        @ ''1.SKB2'' @ [tab] @ ''TTGA'' @ [newline]
        @ ''1.SKB3'' @ [tab] @ ''GGCC'' @ [newline])\<rparr>"

definition example_world_newline :: world where
  "example_world_newline =
     example_world\<lparr>store := (store example_world)\<lparr>tables := (tables (store example_world))
        (''prep_1'' \<mapsto>
           \<lparr>t_columns = [(''sample_id'', ''varchar''), (''barcodesequence'', ''varchar'')],
            t_rows = [[(''sample_id'', PyStr ''1.SKB1''),
                       (''barcodesequence'',
                        PyStr (''AC'' @ [newline] @ ''1.SKB9'' @ [tab] @ ''GT''))]]\<rparr>)\<rparr>\<rparr>"

definition example_env_rejecting :: env where
  "example_env_rejecting = example_env\<lparr>rejects := (\<lambda>q d. Some (StoreError ''constraint violation''))\<rparr>"

definition example_pipeline_env :: pipeline_env where
  "example_pipeline_env =
     \<lparr>raw_filepaths = (\<lambda>rid w. []), mkdtemp = (\<lambda>prefix. ''/tmp/'' @ prefix),
      minimal_mapping = (\<lambda>pt dir w. [])\<rparr>"

definition example_params :: params where
  "example_params = \<lparr>p_table = ''preprocessed_sequence_illumina_params'', p_id = 1, p_str = ''''\<rparr>"

definition empty_preprocessor :: preprocessor where
  "empty_preprocessor = \<lparr>pp_raw_data = None, pp_nodes = [], pp_edges = [], pp_dirpaths_to_remove = []\<rparr>"

section \<open>Properties of delete\<close>

subsection \<open>Effects of single statements\<close>

lemma select_where_DeleteWhere_same:
  "select_where (apply_stmt (DeleteWhere t c v) d) t c v = []"
  by (auto simp: select_where_def split: option.splits)

lemma select_where_empty_DeleteWhere:
  "select_where d t c v = [] \<Longrightarrow> select_where (apply_stmt (DeleteWhere t' c' v') d) t c v = []"
  by (auto simp: select_where_def filter_empty_conv split: option.splits)

lemma select_where_empty_DropTable:
  "select_where d t c v = [] \<Longrightarrow> select_where (apply_stmt (DropTable t') d) t c v = []"
  by (auto simp: select_where_def split: option.splits)

lemma tables_DropTable_same: "tables (apply_stmt (DropTable t) d) t = None"
  by simp

lemma tables_None_DeleteWhere:
  "tables d t = None \<Longrightarrow> tables (apply_stmt (DeleteWhere t' c v) d) t = None"
  by (auto split: option.splits)

lemma store_execute: "store (execute s w) = apply_stmt s (store w)"
  by (simp add: execute_def)

lemma calls_execute: "calls (execute s w) = calls w @ [Execute s]"
  by (simp add: execute_def)

lemma files_execute: "files (execute s w) = files w"
  by (simp add: execute_def)

lemma PrepTemplate_delete_success:
  assumes "exists PrepTemplate tid w = Inr True" and "\<not> preprocessed_data_exists tid w"
  shows "PrepTemplate_delete tid w = (Inr (),
     execute (DeleteWhere ''prep_template'' ''prep_template_id'' (PyInt tid))
      (execute (DeleteWhere ''prep_columns'' ''prep_template_id'' (PyInt tid))
       (execute (DeleteWhere ''common_prep_info'' ''prep_template_id'' (PyInt tid))
        (execute (DropTable (''prep_'' @ str_int tid))
          (execute (DeleteWhere ''prep_template_filepath'' ''prep_template_id'' (PyInt tid)) w)))))"
  using assms
  by (auto simp: PrepTemplate_delete_def exists_def table_name_def PrepTemplate_def Let_def
      split: sum.splits if_splits)

lemma MetadataTemplate_delete_success:
  assumes "exists cls tid w = Inr True"
  shows "MetadataTemplate_delete cls tid w = (Inr (),
     execute (DeleteWhere (cls_column_table cls) (cls_id_column cls) (PyInt tid))
      (execute (DeleteWhere (cls_table cls) (cls_id_column cls) (PyInt tid))
        (execute (DropTable (cls_table_prefix cls @ str_int tid))
          (execute (DeleteWhere ''sample_template_filepath'' ''study_id'' (PyInt tid)) w))))"
  using assms
  by (auto simp: MetadataTemplate_delete_def exists_def table_name_def Let_def
      split: sum.splits if_splits)

lemma PrepTemplate_delete_Inr_iff:
  "PrepTemplate_delete tid w = (Inr (), w') \<Longrightarrow>
     exists PrepTemplate tid w = Inr True \<and> \<not> preprocessed_data_exists tid w"
  by (auto simp: PrepTemplate_delete_def Let_def split: sum.splits if_splits)

lemma MetadataTemplate_delete_Inr_iff:
  "MetadataTemplate_delete cls tid w = (Inr (), w') \<Longrightarrow> exists cls tid w = Inr True"
  by (auto simp: MetadataTemplate_delete_def Let_def split: sum.splits if_splits)

lemma PrepTemplate_delete_unknown:
  "exists PrepTemplate tid v = Inr False \<Longrightarrow>
   PrepTemplate_delete tid v = (Inl (QiitaDBUnknownIDError (PyInt tid) ''PrepTemplate''), v)"
  by (auto simp: PrepTemplate_delete_def exists_def PrepTemplate_def split: sum.splits)

lemma MetadataTemplate_delete_unknown:
  "exists cls tid v = Inr False \<Longrightarrow>
   MetadataTemplate_delete cls tid v = (Inl (QiitaDBUnknownIDError (PyInt tid) (cls_name cls)), v)"
  by (auto simp: MetadataTemplate_delete_def exists_def split: sum.splits)

subsection \<open>A prep template with preprocessed data\<close>

text \<open>
  C4. For a prep template that has preprocessed data linked to it,
  \<^verbatim>\<open>PrepTemplate.delete\<close> fails with QiitaDBExecutionError and leaves the world as it
  was: the store (the dynamic table, the rows of \<^verbatim>\<open>common_prep_info\<close>,
  \<^verbatim>\<open>prep_columns\<close>, the filepath links and the row of \<^verbatim>\<open>prep_template\<close>), the files and
  the list of calls are unchanged.
\<close>

theorem prep_delete_rejected_with_preprocessed_data:
  assumes "exists PrepTemplate tid w = Inr True"
    and "preprocessed_data_exists tid w"
  shows "PrepTemplate_delete tid w = (Inl (QiitaDBExecutionError (PreprocessedDataExists tid)), w)"
  using assms
  by (auto simp: PrepTemplate_delete_def exists_def split: sum.splits)

theorem prep_delete_rejected_with_preprocessed_data_witness:
  "exists PrepTemplate 1 example_world_preprocessed = Inr True
   \<and> preprocessed_data_exists 1 example_world_preprocessed
   \<and> PrepTemplate_delete 1 example_world_preprocessed
       = (Inl (QiitaDBExecutionError (PreprocessedDataExists 1)), example_world_preprocessed)"
proof -
  have ex: "exists PrepTemplate 1 example_world_preprocessed = Inr True"
    by code_simp
  have pre: "preprocessed_data_exists 1 example_world_preprocessed"
    by code_simp
  show ?thesis
    using ex pre prep_delete_rejected_with_preprocessed_data [OF ex pre] by simp
qed

subsection \<open>Deleting twice\<close>

text \<open>
  C9. After a successful delete the template no longer exists, and a second delete fails
  with QiitaDBUnknownIDError; a delete of a template that does not exist fails with that
  error and leaves the world as it was, so nothing has been removed. This holds for
  \<^verbatim>\<open>PrepTemplate.delete\<close> and for the \<^verbatim>\<open>delete\<close> of the base class.
\<close>

theorem delete_twice_unknown_id:
  "(PrepTemplate_delete tid w = (Inr (), w') \<longrightarrow>
      exists PrepTemplate tid w' = Inr False \<and>
      PrepTemplate_delete tid w' = (Inl (QiitaDBUnknownIDError (PyInt tid) ''PrepTemplate''), w'))
   \<and> (MetadataTemplate_delete cls tid w = (Inr (), w'') \<longrightarrow>
      exists cls tid w'' = Inr False \<and>
      MetadataTemplate_delete cls tid w'' = (Inl (QiitaDBUnknownIDError (PyInt tid) (cls_name cls)), w''))
   \<and> (exists PrepTemplate tid v = Inr False \<longrightarrow>
      PrepTemplate_delete tid v = (Inl (QiitaDBUnknownIDError (PyInt tid) ''PrepTemplate''), v))
   \<and> (exists cls tid v' = Inr False \<longrightarrow>
      MetadataTemplate_delete cls tid v' = (Inl (QiitaDBUnknownIDError (PyInt tid) (cls_name cls)), v'))"
proof (intro conjI impI)
  assume del: "PrepTemplate_delete tid w = (Inr (), w')"
  then have pre: "exists PrepTemplate tid w = Inr True" "\<not> preprocessed_data_exists tid w"
    using PrepTemplate_delete_Inr_iff by blast+
  have "w' = snd (PrepTemplate_delete tid w)"
    using del by simp
  then have "tables (store w') (''prep_'' @ str_int tid) = None"
    unfolding PrepTemplate_delete_success [OF pre]
    by (simp add: store_execute tables_None_DeleteWhere del: apply_stmt.simps add: tables_DropTable_same)
  then show ex: "exists PrepTemplate tid w' = Inr False"
    by (simp add: exists_def table_name_def PrepTemplate_def exists_table_def)
  show "PrepTemplate_delete tid w' = (Inl (QiitaDBUnknownIDError (PyInt tid) ''PrepTemplate''), w')"
    using ex by (rule PrepTemplate_delete_unknown)
next
  assume del: "MetadataTemplate_delete cls tid w = (Inr (), w'')"
  then have pre: "exists cls tid w = Inr True"
    by (rule MetadataTemplate_delete_Inr_iff)
  then have pfx: "cls_table_prefix cls \<noteq> []"
    by (auto simp: exists_def table_name_def split: if_splits)
  have "w'' = snd (MetadataTemplate_delete cls tid w)"
    using del by simp
  then have "tables (store w'') (cls_table_prefix cls @ str_int tid) = None"
    unfolding MetadataTemplate_delete_success [OF pre]
    by (simp add: store_execute tables_None_DeleteWhere del: apply_stmt.simps add: tables_DropTable_same)
  then show ex: "exists cls tid w'' = Inr False"
    using pfx by (simp add: exists_def table_name_def exists_table_def)
  show "MetadataTemplate_delete cls tid w'' = (Inl (QiitaDBUnknownIDError (PyInt tid) (cls_name cls)), w'')"
    using ex by (rule MetadataTemplate_delete_unknown)
next
  assume "exists PrepTemplate tid v = Inr False"
  then show "PrepTemplate_delete tid v = (Inl (QiitaDBUnknownIDError (PyInt tid) ''PrepTemplate''), v)"
    by (rule PrepTemplate_delete_unknown)
next
  assume "exists cls tid v' = Inr False"
  then show "MetadataTemplate_delete cls tid v' = (Inl (QiitaDBUnknownIDError (PyInt tid) (cls_name cls)), v')"
    by (rule MetadataTemplate_delete_unknown)
qed

theorem delete_twice_unknown_id_witness:
  "PrepTemplate_delete 1 example_world = (Inr (), snd (PrepTemplate_delete 1 example_world))
   \<and> MetadataTemplate_delete SampleTemplate 1 example_world
       = (Inr (), snd (MetadataTemplate_delete SampleTemplate 1 example_world))
   \<and> exists PrepTemplate 1 (snd (PrepTemplate_delete 1 example_world)) = Inr False
   \<and> exists SampleTemplate 1 (snd (MetadataTemplate_delete SampleTemplate 1 example_world)) = Inr False
   \<and> PrepTemplate_delete 1 (snd (PrepTemplate_delete 1 example_world))
       = (Inl (QiitaDBUnknownIDError (PyInt 1) ''PrepTemplate''), snd (PrepTemplate_delete 1 example_world))
   \<and> MetadataTemplate_delete SampleTemplate 1 (snd (MetadataTemplate_delete SampleTemplate 1 example_world))
       = (Inl (QiitaDBUnknownIDError (PyInt 1) (cls_name SampleTemplate)),
          snd (MetadataTemplate_delete SampleTemplate 1 example_world))"
proof -
  have "fst (PrepTemplate_delete 1 example_world) = Inr ()"
    by code_simp
  then have p: "PrepTemplate_delete 1 example_world = (Inr (), snd (PrepTemplate_delete 1 example_world))"
    by (simp add: prod_eq_iff)
  have "fst (MetadataTemplate_delete SampleTemplate 1 example_world) = Inr ()"
    by code_simp
  then have m: "MetadataTemplate_delete SampleTemplate 1 example_world
      = (Inr (), snd (MetadataTemplate_delete SampleTemplate 1 example_world))"
    by (simp add: prod_eq_iff)
  show ?thesis
    using p m
      delete_twice_unknown_id [of 1 example_world "snd (PrepTemplate_delete 1 example_world)"
        SampleTemplate "snd (MetadataTemplate_delete SampleTemplate 1 example_world)"
        "snd (PrepTemplate_delete 1 example_world)"
        "snd (MetadataTemplate_delete SampleTemplate 1 example_world)"]
    by simp
qed

subsection \<open>The statements of delete and their order\<close>

text \<open>
  C3, as stated: delete removes the dynamic table, the column-registry rows, the
  required-column rows and the filepath links, in that order, inside one transaction.
  On the example store \<^verbatim>\<open>PrepTemplate.delete\<close> makes five separate \<^verbatim>\<open>execute\<close> calls,
  the filepath links first, and no queue is executed.
\<close>

theorem delete_order_counterexample:
  "fst (PrepTemplate_delete 1 example_world) = Inr ()
   \<and> calls (snd (PrepTemplate_delete 1 example_world)) =
       [Execute (DeleteWhere ''prep_template_filepath'' ''prep_template_id'' (PyInt 1)),
        Execute (DropTable ''prep_1''),
        Execute (DeleteWhere ''common_prep_info'' ''prep_template_id'' (PyInt 1)),
        Execute (DeleteWhere ''prep_columns'' ''prep_template_id'' (PyInt 1)),
        Execute (DeleteWhere ''prep_template'' ''prep_template_id'' (PyInt 1))]
   \<and> calls (snd (PrepTemplate_delete 1 example_world)) \<noteq>
       [ExecuteQueue
          [DropTable ''prep_1'',
           DeleteWhere ''prep_columns'' ''prep_template_id'' (PyInt 1),
           DeleteWhere ''common_prep_info'' ''prep_template_id'' (PyInt 1),
           DeleteWhere ''prep_template_filepath'' ''prep_template_id'' (PyInt 1)]]"
  by code_simp

text \<open>
  C3, amended: for an existing template (a prep template without preprocessed data),
  delete removes the filepath links, the dynamic table, the required-column rows and the
  column-registry rows, in that order, each by an \<^verbatim>\<open>execute\<close> call of its own;
  \<^verbatim>\<open>PrepTemplate.delete\<close> then removes the row of \<^verbatim>\<open>prep_template\<close>. Afterwards the
  dynamic table does not exist and none of these rows is left.
\<close>

theorem delete_statements_in_order:
  "(exists PrepTemplate tid w = Inr True \<and> \<not> preprocessed_data_exists tid w \<longrightarrow>
      (\<exists>w'. PrepTemplate_delete tid w = (Inr (), w')
         \<and> calls w' = calls w @
             [Execute (DeleteWhere ''prep_template_filepath'' ''prep_template_id'' (PyInt tid)),
              Execute (DropTable (''prep_'' @ str_int tid)),
              Execute (DeleteWhere ''common_prep_info'' ''prep_template_id'' (PyInt tid)),
              Execute (DeleteWhere ''prep_columns'' ''prep_template_id'' (PyInt tid)),
              Execute (DeleteWhere ''prep_template'' ''prep_template_id'' (PyInt tid))]
         \<and> select_where (store w') ''prep_template_filepath'' ''prep_template_id'' (PyInt tid) = []
         \<and> tables (store w') (''prep_'' @ str_int tid) = None
         \<and> select_where (store w') ''common_prep_info'' ''prep_template_id'' (PyInt tid) = []
         \<and> select_where (store w') ''prep_columns'' ''prep_template_id'' (PyInt tid) = []
         \<and> select_where (store w') ''prep_template'' ''prep_template_id'' (PyInt tid) = []))
   \<and> (exists cls tid w = Inr True \<longrightarrow>
      (\<exists>w'. MetadataTemplate_delete cls tid w = (Inr (), w')
         \<and> calls w' = calls w @
             [Execute (DeleteWhere ''sample_template_filepath'' ''study_id'' (PyInt tid)),
              Execute (DropTable (cls_table_prefix cls @ str_int tid)),
              Execute (DeleteWhere (cls_table cls) (cls_id_column cls) (PyInt tid)),
              Execute (DeleteWhere (cls_column_table cls) (cls_id_column cls) (PyInt tid))]
         \<and> select_where (store w') ''sample_template_filepath'' ''study_id'' (PyInt tid) = []
         \<and> tables (store w') (cls_table_prefix cls @ str_int tid) = None
         \<and> select_where (store w') (cls_table cls) (cls_id_column cls) (PyInt tid) = []
         \<and> select_where (store w') (cls_column_table cls) (cls_id_column cls) (PyInt tid) = []))"
proof (intro conjI impI)
  assume "exists PrepTemplate tid w = Inr True \<and> \<not> preprocessed_data_exists tid w"
  then have eq: "PrepTemplate_delete tid w = (Inr (),
     execute (DeleteWhere ''prep_template'' ''prep_template_id'' (PyInt tid))
      (execute (DeleteWhere ''prep_columns'' ''prep_template_id'' (PyInt tid))
       (execute (DeleteWhere ''common_prep_info'' ''prep_template_id'' (PyInt tid))
        (execute (DropTable (''prep_'' @ str_int tid))
          (execute (DeleteWhere ''prep_template_filepath'' ''prep_template_id'' (PyInt tid)) w)))))"
    by (simp add: PrepTemplate_delete_success)
  show "\<exists>w'. PrepTemplate_delete tid w = (Inr (), w')
         \<and> calls w' = calls w @
             [Execute (DeleteWhere ''prep_template_filepath'' ''prep_template_id'' (PyInt tid)),
              Execute (DropTable (''prep_'' @ str_int tid)),
              Execute (DeleteWhere ''common_prep_info'' ''prep_template_id'' (PyInt tid)),
              Execute (DeleteWhere ''prep_columns'' ''prep_template_id'' (PyInt tid)),
              Execute (DeleteWhere ''prep_template'' ''prep_template_id'' (PyInt tid))]
         \<and> select_where (store w') ''prep_template_filepath'' ''prep_template_id'' (PyInt tid) = []
         \<and> tables (store w') (''prep_'' @ str_int tid) = None
         \<and> select_where (store w') ''common_prep_info'' ''prep_template_id'' (PyInt tid) = []
         \<and> select_where (store w') ''prep_columns'' ''prep_template_id'' (PyInt tid) = []
         \<and> select_where (store w') ''prep_template'' ''prep_template_id'' (PyInt tid) = []"
    unfolding eq
    by (simp del: apply_stmt.simps
        add: store_execute calls_execute select_where_DeleteWhere_same
          select_where_empty_DeleteWhere select_where_empty_DropTable
          tables_DropTable_same tables_None_DeleteWhere)
next
  assume "exists cls tid w = Inr True"
  then have eq: "MetadataTemplate_delete cls tid w = (Inr (),
     execute (DeleteWhere (cls_column_table cls) (cls_id_column cls) (PyInt tid))
      (execute (DeleteWhere (cls_table cls) (cls_id_column cls) (PyInt tid))
        (execute (DropTable (cls_table_prefix cls @ str_int tid))
          (execute (DeleteWhere ''sample_template_filepath'' ''study_id'' (PyInt tid)) w))))"
    by (rule MetadataTemplate_delete_success)
  show "\<exists>w'. MetadataTemplate_delete cls tid w = (Inr (), w')
         \<and> calls w' = calls w @
             [Execute (DeleteWhere ''sample_template_filepath'' ''study_id'' (PyInt tid)),
              Execute (DropTable (cls_table_prefix cls @ str_int tid)),
              Execute (DeleteWhere (cls_table cls) (cls_id_column cls) (PyInt tid)),
              Execute (DeleteWhere (cls_column_table cls) (cls_id_column cls) (PyInt tid))]
         \<and> select_where (store w') ''sample_template_filepath'' ''study_id'' (PyInt tid) = []
         \<and> tables (store w') (cls_table_prefix cls @ str_int tid) = None
         \<and> select_where (store w') (cls_table cls) (cls_id_column cls) (PyInt tid) = []
         \<and> select_where (store w') (cls_column_table cls) (cls_id_column cls) (PyInt tid) = []"
    unfolding eq
    by (simp del: apply_stmt.simps
        add: store_execute calls_execute select_where_DeleteWhere_same
          select_where_empty_DeleteWhere select_where_empty_DropTable
          tables_DropTable_same tables_None_DeleteWhere)
qed

theorem delete_statements_in_order_witness:
  "exists PrepTemplate 1 example_world = Inr True
   \<and> \<not> preprocessed_data_exists 1 example_world
   \<and> exists SampleTemplate 1 example_world = Inr True
   \<and> (\<exists>w'. PrepTemplate_delete 1 example_world = (Inr (), w')
         \<and> calls w' = 
             [Execute (DeleteWhere ''prep_template_filepath'' ''prep_template_id'' (PyInt 1)),
              Execute (DropTable ''prep_1''),
              Execute (DeleteWhere ''common_prep_info'' ''prep_template_id'' (PyInt 1)),
              Execute (DeleteWhere ''prep_columns'' ''prep_template_id'' (PyInt 1)),
              Execute (DeleteWhere ''prep_template'' ''prep_template_id'' (PyInt 1))]
         \<and> tables (store w') ''prep_1'' = None)
   \<and> (\<exists>w'. MetadataTemplate_delete SampleTemplate 1 example_world = (Inr (), w')
         \<and> calls w' =
             [Execute (DeleteWhere ''sample_template_filepath'' ''study_id'' (PyInt 1)),
              Execute (DropTable ''sample_1''),
              Execute (DeleteWhere ''required_sample_info'' ''study_id'' (PyInt 1)),
              Execute (DeleteWhere ''study_sample_columns'' ''study_id'' (PyInt 1))]
         \<and> tables (store w') ''sample_1'' = None)"
proof -
  have h1: "exists PrepTemplate 1 example_world = Inr True"
    by code_simp
  have h2: "\<not> preprocessed_data_exists 1 example_world"
    by code_simp
  have h3: "exists SampleTemplate 1 example_world = Inr True"
    by code_simp
  have s1: "str_int 1 = ''1''"
    by code_simp
  have c: "calls example_world = []"
    by (simp add: example_world_def)
  show ?thesis
    using h1 h2 h3 delete_statements_in_order [of 1 example_world SampleTemplate]
    by (simp add: s1 c SampleTemplate_def) blast
qed

section \<open>Properties of the accessors\<close>

text \<open>
  C10. \<^verbatim>\<open>MetadataTemplate.get\<close> returns the sample object when the sample id is in
  the template and None otherwise. \<^verbatim>\<open>BaseSample.get\<close>, for a sample whose row is in
  the dynamic table, returns the stored value when the category is one of the sample
  (the test of \<^verbatim>\<open>__contains__\<close>, on the lower-cased key) and None otherwise. Neither
  raises.
\<close>

theorem get_returns_value_or_None:
  "MetadataTemplate_get cls tid key w =
     Inr (if MetadataTemplate_contains cls tid key w
          then Some \<lparr>s_id = key, s_template = tid, s_dynamic_table = cls_table_prefix cls @ str_int tid\<rparr>
          else None)
   \<and> (select_where (store w) (s_dynamic_table s) ''sample_id'' (PyStr (s_id s)) \<noteq> [] \<longrightarrow>
        BaseSample_get s category w =
          Inr (if BaseSample_contains s category w = Inr True
               then row_get (hd (select_where (store w) (s_dynamic_table s) ''sample_id'' (PyStr (s_id s))))
                      (lower category)
               else PyNone))"
proof (intro conjI impI)
  show "MetadataTemplate_get cls tid key w =
     Inr (if MetadataTemplate_contains cls tid key w
          then Some \<lparr>s_id = key, s_template = tid, s_dynamic_table = cls_table_prefix cls @ str_int tid\<rparr>
          else None)"
    by (simp add: MetadataTemplate_get_def MetadataTemplate_getitem_def BaseSample_init_def)
next
  assume "select_where (store w) (s_dynamic_table s) ''sample_id'' (PyStr (s_id s)) \<noteq> []"
  then obtain r rs where
    rows: "select_where (store w) (s_dynamic_table s) ''sample_id'' (PyStr (s_id s)) = r # rs"
    by (cases "select_where (store w) (s_dynamic_table s) ''sample_id'' (PyStr (s_id s))") auto
  show "BaseSample_get s category w =
          Inr (if BaseSample_contains s category w = Inr True
               then row_get (hd (select_where (store w) (s_dynamic_table s) ''sample_id'' (PyStr (s_id s))))
                      (lower category)
               else PyNone)"
    by (simp add: BaseSample_get_def BaseSample_getitem_def BaseSample_contains_def
        get_categories_def rows Let_def)
qed

theorem get_returns_value_or_None_witness:
  "select_where (store example_world) ''prep_1'' ''sample_id'' (PyStr ''1.SKB1'') \<noteq> []
   \<and> MetadataTemplate_get PrepTemplate 1 ''1.SKB1'' example_world
       = Inr (Some \<lparr>s_id = ''1.SKB1'', s_template = 1, s_dynamic_table = ''prep_1''\<rparr>)
   \<and> MetadataTemplate_get PrepTemplate 1 ''SKB9'' example_world = Inr None
   \<and> BaseSample_get \<lparr>s_id = ''1.SKB1'', s_template = 1, s_dynamic_table = ''prep_1''\<rparr>
        ''BarcodeSequence'' example_world = Inr (PyStr ''ACGT'')
   \<and> BaseSample_get \<lparr>s_id = ''1.SKB1'', s_template = 1, s_dynamic_table = ''prep_1''\<rparr>
        ''ph'' example_world = Inr PyNone"
proof -
  have h: "select_where (store example_world) ''prep_1'' ''sample_id'' (PyStr ''1.SKB1'') \<noteq> []"
    by code_simp
  have c1: "MetadataTemplate_contains PrepTemplate 1 ''1.SKB1'' example_world"
    by code_simp
  have c2: "\<not> MetadataTemplate_contains PrepTemplate 1 ''SKB9'' example_world"
    by code_simp
  have c3: "BaseSample_contains \<lparr>s_id = ''1.SKB1'', s_template = 1, s_dynamic_table = ''prep_1''\<rparr>
        ''BarcodeSequence'' example_world = Inr True"
    by code_simp
  have c4: "BaseSample_contains \<lparr>s_id = ''1.SKB1'', s_template = 1, s_dynamic_table = ''prep_1''\<rparr>
        ''ph'' example_world \<noteq> Inr True"
    by code_simp
  have v: "row_get (hd (select_where (store example_world) ''prep_1'' ''sample_id'' (PyStr ''1.SKB1'')))
             (lower ''BarcodeSequence'') = PyStr ''ACGT''"
    by code_simp
  have p: "cls_table_prefix PrepTemplate @ str_int 1 = ''prep_1''"
    by code_simp
  show ?thesis
    using h
      get_returns_value_or_None [of PrepTemplate 1 "''1.SKB1''" example_world
        "\<lparr>s_id = ''1.SKB1'', s_template = 1, s_dynamic_table = ''prep_1''\<rparr>" "''BarcodeSequence''"]
      get_returns_value_or_None [of PrepTemplate 1 "''SKB9''" example_world
        "\<lparr>s_id = ''1.SKB1'', s_template = 1, s_dynamic_table = ''prep_1''\<rparr>" "''ph''"]
    by (simp add: c1 c2 c3 c4 v p)
qed

section \<open>Properties of the job graph construction\<close>

lemma map_of_update_other: "k \<noteq> c \<Longrightarrow> map_of (AList.update c v r) k = map_of r k"
  by (simp add: update_conv')

lemma row_get_update_other: "k \<noteq> c \<Longrightarrow> row_get (AList.update c v r) k = row_get r k"
  by (simp add: row_get_def map_of_update_other)

lemma select_where_UpdateWhere_other_table:
  "t' \<noteq> t \<Longrightarrow> select_where (apply_stmt (UpdateWhere t c v c' v') d) t' k x = select_where d t' k x"
  by (auto simp: select_where_def split: option.splits)

lemma select_where_UpdateWhere_other_column:
  assumes "k \<noteq> c"
  shows "select_where (apply_stmt (UpdateWhere t c v c' v') d) t k x =
         map (\<lambda>r. if map_of r c' = Some v' then AList.update c v r else r) (select_where d t k x)"
proof (cases "tables d t")
  case None
  then show ?thesis by (simp add: select_where_def)
next
  case (Some tb)
  have "filter (\<lambda>r. map_of r k = Some x)
          (map (\<lambda>r. if map_of r c' = Some v' then AList.update c v r else r) rows)
        = map (\<lambda>r. if map_of r c' = Some v' then AList.update c v r else r)
            (filter (\<lambda>r. map_of r k = Some x) rows)" for rows
    using assms by (induction rows) (auto simp: map_of_update_other)
  then show ?thesis
    using Some by (simp add: select_where_def)
qed

lemma row_get_if_update_other:
  "k \<noteq> c \<Longrightarrow> row_get (if P then AList.update c v r else r) k = row_get r k"
  by (simp add: row_get_update_other)

lemma raw_data_filetype_status_update:
  "raw_data_filetype rid
     (execute (UpdateWhere ''raw_data'' ''preprocessing_status'' v ''raw_data_id'' v') w)
   = raw_data_filetype rid w"
  by (simp add: raw_data_filetype_def store_execute select_where_UpdateWhere_other_table
      select_where_UpdateWhere_other_column o_def row_get_if_update_other
      del: apply_stmt.simps)

text \<open>
  C5, as stated: for a raw data whose file type is neither FASTQ nor FASTA the executor
  fails before any state mutation, so that the preprocessing status of the raw data is
  not changed. On the example store the raw data 1 has the file type SFF and the status
  \<open>not_preprocessed\<close>; the construction fails with NotImplementedError and the status
  is \<open>preprocessing\<close> afterwards.
\<close>

theorem unsupported_filetype_status_counterexample:
  "fst (construct_job_graph example_pipeline_env 1 1 example_params empty_preprocessor example_world)
     = Inl (NotImplementedError (RawDataFiletypeNotSupported 1 ''SFF''))
   \<and> preprocessing_status ''raw_data'' ''raw_data_id'' 1 example_world
     = Inr (PyStr ''not_preprocessed'')
   \<and> preprocessing_status ''raw_data'' ''raw_data_id'' 1
       (snd (snd (construct_job_graph example_pipeline_env 1 1 example_params empty_preprocessor
          example_world)))
     = Inr (PyStr ''preprocessing'')"
  by code_simp

text \<open>
  C5, amended: for a raw data whose file type is neither FASTQ nor FASTA the construction
  of the job graph fails with NotImplementedError before any command is generated and
  before any node, edge or directory is added; the one write it has made by then is the
  UPDATE that sets the preprocessing status of the raw data to \<open>preprocessing\<close>.
\<close>

theorem unsupported_filetype_fails_after_status_write:
  assumes "raw_data_filetype rid w = Inr filetype"
    and "filetype \<noteq> PyStr ''FASTQ''" and "filetype \<noteq> PyStr ''FASTA''"
  shows "construct_job_graph pe study rid ps pp w =
     (Inl (NotImplementedError (RawDataFiletypeNotSupported rid (py_str filetype))),
      pp\<lparr>pp_raw_data := Some rid\<rparr>,
      execute (UpdateWhere ''raw_data'' ''preprocessing_status'' (PyStr ''preprocessing'')
                 ''raw_data_id'' (PyInt rid)) w)"
proof -
  have k: "known_state ''preprocessing''"
    by (simp add: known_state_def)
  show ?thesis
    using assms
    by (simp add: construct_job_graph_def set_preprocessing_status_def k
        raw_data_filetype_status_update Let_def)
qed

theorem unsupported_filetype_fails_after_status_write_witness:
  "raw_data_filetype 1 example_world = Inr (PyStr ''SFF'')
   \<and> PyStr ''SFF'' \<noteq> PyStr ''FASTQ'' \<and> PyStr ''SFF'' \<noteq> PyStr ''FASTA''
   \<and> construct_job_graph example_pipeline_env 1 1 example_params empty_preprocessor example_world =
     (Inl (NotImplementedError (RawDataFiletypeNotSupported 1 ''SFF'')),
      empty_preprocessor\<lparr>pp_raw_data := Some 1\<rparr>,
      execute (UpdateWhere ''raw_data'' ''preprocessing_status'' (PyStr ''preprocessing'')
                 ''raw_data_id'' (PyInt 1)) example_world)"
proof -
  have h1: "raw_data_filetype 1 example_world = Inr (PyStr ''SFF'')"
    by code_simp
  have h2: "PyStr ''SFF'' \<noteq> PyStr ''FASTQ''" and h3: "PyStr ''SFF'' \<noteq> PyStr ''FASTA''"
    by simp_all
  show ?thesis
    using h1 unsupported_filetype_fails_after_status_write [OF h1 h2 h3] by simp
qed

section \<open>Properties of the bulk load\<close>

subsection \<open>Names that the module and the class do not bind\<close>

text \<open>
  The lookups that fail: the attribute \<^verbatim>\<open>_check_special_columns\<close> of the class, the
  constants that \<^verbatim>\<open>_check_template_special_columns\<close> reads, and the helpers that the
  assembly of the queue calls with a leading underscore.
\<close>

lemma check_special_columns_not_defined:
  "class_attribute ''_check_special_columns'' v
     = Inl (AttributeError ''PrepTemplate'' ''_check_special_columns'')"
  by (simp add: class_attribute_def PrepTemplate_attributes_def)

lemma check_template_special_columns_raises:
  "check_template_special_columns md data_type = Inl (NameError ''TARGET_GENE_DATA_TYPES'')"
  by (simp add: check_template_special_columns_def global_name_def prep_template_globals_def)

lemma create_statements_raises:
  "create_statements md prep_id db_cols = Inl (NameError ''_as_python_types'')"
  by (simp add: create_statements_def global_name_def prep_template_globals_def)

text \<open>
  So \<^verbatim>\<open>PrepTemplate.create\<close> raises for every input, at the latest where it reads
  \<^verbatim>\<open>_check_special_columns\<close>, and the world is as it was: the insert into
  \<^verbatim>\<open>prep_template\<close>, the queue and its handler are never reached.
\<close>

lemma create_checks_raises:
  "\<exists>e. create_checks ev md_template study_id data_type investigation_type w = Inl e"
  by (auto simp: create_checks_def check_special_columns_not_defined Let_def
      split: sum.splits prod.splits)

lemma PrepTemplate_create_raises:
  "\<exists>e. PrepTemplate_create ev md_template raw_data_id study_id data_type investigation_type w
          = (Inl e, w)"
proof -
  obtain e where "create_checks ev md_template study_id data_type investigation_type w = Inl e"
    using create_checks_raises by blast
  then show ?thesis
    by (simp add: PrepTemplate_create_def)
qed

subsection \<open>Missing required columns\<close>

text \<open>
  C2. A template for the target gene data type \<open>16S\<close> whose columns, after the renaming,
  still lack the required column \<open>run_prefix\<close>: \<^verbatim>\<open>PrepTemplate.create\<close> passes the checks
  of the investigation type, the sample names, the headers and the data type, and then
  raises AttributeError where it reads \<^verbatim>\<open>_check_special_columns\<close>, not the
  QiitaDBColumnError that its docstring gives for a missing column. Nothing has been
  written: the world is as it was.
\<close>

theorem create_missing_columns_attribute_error:
  "PrepTemplate_create example_env example_md_missing 1 1 (DataTypeStr ''16S'') (Some ''Amplicon'')
       example_world
     = (Inl (AttributeError ''PrepTemplate'' ''_check_special_columns''), example_world)
   \<and> ''16S'' \<in> set TARGET_GENE_DATA_TYPES
   \<and> ''run_prefix'' \<in> REQUIRED_TARGET_GENE_COLS
        - set (rename_columns RENAME_COLS_DICT (df_columns (normalize_template example_md_missing 1)))"
proof -
  have "create_checks example_env example_md_missing 1 (DataTypeStr ''16S'') (Some ''Amplicon'')
          example_world
        = Inl (AttributeError ''PrepTemplate'' ''_check_special_columns'')"
    by code_simp
  then have a: "PrepTemplate_create example_env example_md_missing 1 1 (DataTypeStr ''16S'')
          (Some ''Amplicon'') example_world
        = (Inl (AttributeError ''PrepTemplate'' ''_check_special_columns''), example_world)"
    by (simp add: PrepTemplate_create_def)
  have b: "''16S'' \<in> set TARGET_GENE_DATA_TYPES"
    by code_simp
  have c: "''run_prefix'' \<in> REQUIRED_TARGET_GENE_COLS
        - set (rename_columns RENAME_COLS_DICT (df_columns (normalize_template example_md_missing 1)))"
    by code_simp
  from a b c show ?thesis
    by (intro conjI)
qed

subsection \<open>A template with a sample that the study does not have\<close>

text \<open>
  C1. A template with the sample \<open>1.SKB9\<close>, which is not registered for study 1, on a
  store that rejects every queue: \<^verbatim>\<open>PrepTemplate.create\<close> raises AttributeError where
  it reads \<^verbatim>\<open>_check_special_columns\<close>. No call has reached the store by then: no row
  of \<^verbatim>\<open>prep_template\<close> is inserted or deleted, no queue is executed, and the error is
  not the QiitaDBExecutionError that names the sample.
\<close>

theorem create_orphan_sample_attribute_error:
  "PrepTemplate_create example_env_rejecting example_md_orphan 1 1 (DataTypeStr ''Metagenomic'') None
       example_world
     = (Inl (AttributeError ''PrepTemplate'' ''_check_special_columns''), example_world)
   \<and> calls (snd (PrepTemplate_create example_env_rejecting example_md_orphan 1 1
                    (DataTypeStr ''Metagenomic'') None example_world)) = []
   \<and> {s \<in> set (df_index (normalize_template example_md_orphan 1)).
         PyStr s \<notin> study_sample_ids 1 example_world} = {''1.SKB9''}
   \<and> rejects example_env_rejecting [] (store example_world) = Some (StoreError ''constraint violation'')"
proof -
  have "create_checks example_env_rejecting example_md_orphan 1 (DataTypeStr ''Metagenomic'') None
          example_world
        = Inl (AttributeError ''PrepTemplate'' ''_check_special_columns'')"
    by code_simp
  then have a: "PrepTemplate_create example_env_rejecting example_md_orphan 1 1
          (DataTypeStr ''Metagenomic'') None example_world
        = (Inl (AttributeError ''PrepTemplate'' ''_check_special_columns''), example_world)"
    by (simp add: PrepTemplate_create_def)
  have b: "calls (snd (PrepTemplate_create example_env_rejecting example_md_orphan 1 1
                    (DataTypeStr ''Metagenomic'') None example_world)) = []"
    unfolding a by (simp add: example_world_def)
  have c: "{s \<in> set (df_index (normalize_template example_md_orphan 1)).
         PyStr s \<notin> study_sample_ids 1 example_world} = {''1.SKB9''}"
    by code_simp
  have d: "rejects example_env_rejecting [] (store example_world)
      = Some (StoreError ''constraint violation'')"
    by (simp add: example_env_rejecting_def)
  from a b c d show ?thesis
    by (intro conjI)
qed

subsection \<open>The sample ids that a bulk load stores\<close>

text \<open>
  C6. A template of study 5 with the sample ids \<open>SKB1\<close> and \<open>5.SKB2\<close>:
  \<^verbatim>\<open>PrepTemplate.create\<close> prefixes them to \<open>5.SKB1\<close> and \<open>5.SKB2\<close> and then raises
  AttributeError where it reads \<^verbatim>\<open>_check_special_columns\<close>, before any insert. The
  store holds no row with the sample id \<open>5.SKB1\<close> afterwards and no dynamic table for the
  id that the template would have taken.
\<close>

theorem create_stores_no_sample_ids:
  "PrepTemplate_create example_env example_md_study5 1 5 (DataTypeStr ''Metagenomic'') None
       example_world
     = (Inl (AttributeError ''PrepTemplate'' ''_check_special_columns''), example_world)
   \<and> df_index (normalize_template example_md_study5 5) = [''5.SKB1'', ''5.SKB2'']
   \<and> select_where
        (store (snd (PrepTemplate_create example_env example_md_study5 1 5
                       (DataTypeStr ''Metagenomic'') None example_world)))
        ''common_prep_info'' ''sample_id'' (PyStr ''5.SKB1'') = []
   \<and> exists PrepTemplate (next_id (store example_world) ''prep_template'')
        (snd (PrepTemplate_create example_env example_md_study5 1 5
                (DataTypeStr ''Metagenomic'') None example_world)) = Inr False"
proof -
  have "create_checks example_env example_md_study5 5 (DataTypeStr ''Metagenomic'') None
          example_world
        = Inl (AttributeError ''PrepTemplate'' ''_check_special_columns'')"
    by code_simp
  then have a: "PrepTemplate_create example_env example_md_study5 1 5
          (DataTypeStr ''Metagenomic'') None example_world
        = (Inl (AttributeError ''PrepTemplate'' ''_check_special_columns''), example_world)"
    by (simp add: PrepTemplate_create_def)
  have b: "df_index (normalize_template example_md_study5 5) = [''5.SKB1'', ''5.SKB2'']"
    by code_simp
  have c: "select_where (store example_world) ''common_prep_info'' ''sample_id''
             (PyStr ''5.SKB1'') = []"
    by code_simp
  have d: "exists PrepTemplate (next_id (store example_world) ''prep_template'') example_world
             = Inr False"
    by code_simp
  from a b c d show ?thesis
    by simp
qed

section \<open>Properties of the mapping file\<close>

text \<open>
  \<^verbatim>\<open>create_qiime_mapping_file\<close> reads the global name \<^verbatim>\<open>SampleTemplate\<close> first, which
  the module does not bind: it raises NameError for every template and file, and the
  world is as it was.
\<close>

lemma create_qiime_mapping_file_raises:
  "create_qiime_mapping_file ev tid prep_template_fp w = (Inl (NameError ''SampleTemplate''), w)"
  by (simp add: create_qiime_mapping_file_def global_name_def prep_template_globals_def)

text \<open>
  C7. The prep template file of template 1 has the samples \<open>1.SKB1\<close>, \<open>1.SKB2\<close> and
  \<open>1.SKB3\<close>, the sample template file of its study the first two only:
  \<^verbatim>\<open>create_qiime_mapping_file\<close> raises NameError for \<^verbatim>\<open>SampleTemplate\<close>, not the
  ValueError of its docstring that names \<open>1.SKB3\<close>. No mapping file is written and none
  is linked: the world is as it was.
\<close>

theorem mapping_file_name_error:
  "create_qiime_mapping_file example_env 1 ''/templates/1_prep_1.txt'' example_world_prep_file
     = (Inl (NameError ''SampleTemplate''), example_world_prep_file)
   \<and> set (df_index (projr (load_template_to_dataframe ''/templates/1_prep_1.txt''
                             example_world_prep_file)))
       = {''1.SKB1'', ''1.SKB2'', ''1.SKB3''}
   \<and> set (df_index (projr (load_template_to_dataframe ''/templates/1_sample.txt''
                             example_world_prep_file)))
       = {''1.SKB1'', ''1.SKB2''}"
proof -
  have "global_name ''SampleTemplate'' SampleTemplate = Inl (NameError ''SampleTemplate'')"
    by code_simp
  then have a: "create_qiime_mapping_file example_env 1 ''/templates/1_prep_1.txt''
          example_world_prep_file
        = (Inl (NameError ''SampleTemplate''), example_world_prep_file)"
    by (simp add: create_qiime_mapping_file_def)
  have b: "set (df_index (projr (load_template_to_dataframe ''/templates/1_prep_1.txt''
              example_world_prep_file))) = {''1.SKB1'', ''1.SKB2'', ''1.SKB3''}"
    by code_simp
  have c: "set (df_index (projr (load_template_to_dataframe ''/templates/1_sample.txt''
              example_world_prep_file))) = {''1.SKB1'', ''1.SKB2''}"
    by code_simp
  from a b c show ?thesis
    by (intro conjI)
qed


section \<open>Properties of the backup file\<close>

subsection \<open>Splitting and joining, dictionaries, sorting\<close>

lemma split_char_not_Nil: "split_char c s \<noteq> []"
  by (induction s) (auto split: list.splits)

lemma split_char_clean: "c \<notin> set w \<Longrightarrow> split_char c w = [w]"
  by (induction w) auto

lemma split_char_append:
  "c \<notin> set w \<Longrightarrow> split_char c (w @ c # rest) = w # split_char c rest"
  by (induction w) (auto split: list.splits)

lemma split_char_join:
  assumes "\<forall>x \<in> set xs. c \<notin> set x" and "xs \<noteq> []"
  shows "split_char c (join [c] xs) = xs"
  using assms
proof (induction xs)
  case Nil
  then show ?case by simp
next
  case (Cons x xs)
  show ?case
  proof (cases xs)
    case Nil
    then show ?thesis using Cons.prems by (simp add: split_char_clean)
  next
    case (Cons y ys)
    then have "split_char c (join [c] xs) = xs"
      using Cons.IH Cons.prems by simp
    then show ?thesis
      using Cons Cons.prems by (simp add: split_char_append)
  qed
qed

lemma split_char_lines:
  "\<forall>l \<in> set ls. c \<notin> set l \<Longrightarrow> split_char c (concat (map (\<lambda>l. l @ [c]) ls)) = ls @ [[]]"
  by (induction ls) (simp_all add: split_char_append)

lemma file_lines_concat:
  "\<forall>l \<in> set ls. newline \<notin> set l \<Longrightarrow> file_lines (concat (map (\<lambda>l. l @ [newline]) ls)) = ls"
  by (simp add: file_lines_def split_char_lines)

lemma update_fresh: "k \<notin> fst ` set acc \<Longrightarrow> AList.update k v acc = acc @ [(k, v)]"
  by (induction acc) auto

lemma fold_update_distinct:
  "distinct (map fst (acc @ ps)) \<Longrightarrow> fold (\<lambda>(k, v). AList.update k v) ps acc = acc @ ps"
proof (induction ps arbitrary: acc)
  case Nil
  then show ?case by simp
next
  case (Cons p ps)
  obtain k v where p: "p = (k, v)" by (cases p)
  have fresh: "k \<notin> fst ` set acc"
    using Cons.prems p by auto
  have "distinct (map fst ((acc @ [(k, v)]) @ ps))"
    using Cons.prems p by simp
  then have "fold (\<lambda>(k, v). AList.update k v) ps (acc @ [(k, v)]) = (acc @ [(k, v)]) @ ps"
    by (rule Cons.IH)
  then show ?case
    using p fresh by (simp add: update_fresh)
qed

lemma dict_of_distinct: "distinct (map fst ps) \<Longrightarrow> dict_of ps = ps"
  using fold_update_distinct [of "[]" ps] by (simp add: dict_of_def)


lemma transform_fold:
  assumes "\<forall>r \<in> set rows. distinct (map fst r) \<and> map_of r ''sample_id'' \<noteq> None"
    and "distinct (map fst acc @ map (\<lambda>r. row_get r ''sample_id'') rows)"
  shows "fold (\<lambda>r acc. case acc of
                      Inl e \<Rightarrow> Inl e
                    | Inr result \<Rightarrow>
                        (let values_dict = dict_of r in
                         case map_of values_dict ''sample_id'' of
                           None \<Rightarrow> Inl (KeyError ''sample_id'')
                         | Some sid \<Rightarrow> Inr (AList.update sid (AList.delete ''sample_id'' values_dict) result)))
          rows (Inr acc)
         = Inr (acc @ map (\<lambda>r. (row_get r ''sample_id'', AList.delete ''sample_id'' r)) rows)"
  using assms
proof (induction rows arbitrary: acc)
  case Nil
  then show ?case by simp
next
  case (Cons r rows)
  from Cons.prems(1) obtain sid where sid: "map_of r ''sample_id'' = Some sid" and d: "distinct (map fst r)"
    by auto
  have rg: "row_get r ''sample_id'' = sid"
    using sid by (simp add: row_get_def)
  have fresh: "sid \<notin> fst ` set acc"
    using Cons.prems(2) rg by auto
  have step: "AList.update sid (AList.delete ''sample_id'' r) acc = acc @ [(sid, AList.delete ''sample_id'' r)]"
    using fresh by (rule update_fresh)
  have a: "distinct (map fst (acc @ [(sid, AList.delete ''sample_id'' r)]) @ map (\<lambda>r. row_get r ''sample_id'') rows)"
    using Cons.prems(2) rg by auto
  have b: "\<forall>r \<in> set rows. distinct (map fst r) \<and> map_of r ''sample_id'' \<noteq> None"
    using Cons.prems(1) by (metis list.set_intros(2))
  have IH: "fold (\<lambda>r acc. case acc of
                      Inl e \<Rightarrow> Inl e
                    | Inr result \<Rightarrow>
                        (let values_dict = dict_of r in
                         case map_of values_dict ''sample_id'' of
                           None \<Rightarrow> Inl (KeyError ''sample_id'')
                         | Some sid \<Rightarrow> Inr (AList.update sid (AList.delete ''sample_id'' values_dict) result)))
          rows (Inr (acc @ [(sid, AList.delete ''sample_id'' r)]))
         = Inr ((acc @ [(sid, AList.delete ''sample_id'' r)])
                @ map (\<lambda>r. (row_get r ''sample_id'', AList.delete ''sample_id'' r)) rows)"
    by (rule Cons.IH [OF b a])
  show ?case
    using IH by (simp add: dict_of_distinct [OF d] sid step rg)
qed

lemma transform_to_dict_rows:
  assumes "\<forall>r \<in> set rows. distinct (map fst r) \<and> map_of r ''sample_id'' \<noteq> None"
    and "distinct (map (\<lambda>r. row_get r ''sample_id'') rows)"
  shows "transform_to_dict rows
         = Inr (map (\<lambda>r. (row_get r ''sample_id'', AList.delete ''sample_id'' r)) rows)"
  using transform_fold [of rows "[]"] assms by (simp add: transform_to_dict_def)

lemma write_rows_all:
  assumes "\<forall>item \<in> set items. \<forall>h \<in> set headers. map_of (snd item) h \<noteq> None"
  shows "write_rows headers items out
         = (None, out @ concat (map (\<lambda>item. row_line headers item @ [newline]) items))"
  using assms
proof (induction items arbitrary: out)
  case Nil
  then show ?case by simp
next
  case (Cons item items)
  obtain sid d where item: "item = (sid, d)" by (cases item)
  have "filter (\<lambda>h. map_of d h = None) headers = []"
    using Cons.prems item by (auto simp: filter_empty_conv)
  then show ?case
    using Cons.IH [of "out @ row_line headers item @ [newline]"] Cons.prems item
    by (simp add: row_line_def)
qed


lemma set_join: "set (join sep xs) \<subseteq> set sep \<union> \<Union> (set ` set xs)"
  by (induction sep xs rule: join.induct) auto

lemma join_tab_no_newline:
  "\<forall>x \<in> set xs. newline \<notin> set x \<Longrightarrow> newline \<notin> set (join [tab] xs)"
  using set_join [of "[tab]" xs] by (auto simp: tab_def newline_def)

lemma map_insort_key: "map f (insort_key f x xs) = insort (f x) (map f xs)"
  by (induction xs) auto

lemma map_sort_key: "map f (sort_key f xs) = sort (map f xs)"
  by (induction xs) (simp_all add: map_insort_key)

lemma map_of_zip_distinct:
  "distinct (map f xs) \<Longrightarrow> x \<in> set xs \<Longrightarrow> map_of (zip (map f xs) (map g xs)) (f x) = Some (g x)"
proof (induction xs)
  case Nil
  then show ?case by simp
next
  case (Cons a xs)
  show ?case
  proof (cases "x = a")
    case True
    then show ?thesis by simp
  next
    case False
    then have x: "x \<in> set xs" using Cons.prems by simp
    from Cons.prems have "f a \<notin> f ` set xs" by simp
    with x have "f x \<noteq> f a" by (metis imageI)
    then show ?thesis using Cons.IH x Cons.prems by simp
  qed
qed


lemma normalized_row:
  assumes "distinct (map fst cols)"
  shows "map fst (map (\<lambda>(c, ty). (c, row_get r c)) cols) = map fst cols"
    and "c \<in> fst ` set cols \<Longrightarrow> map_of (map (\<lambda>(c, ty). (c :: string, row_get r c)) cols) c = Some (row_get r c)"
proof -
  show "map fst (map (\<lambda>(c, ty). (c, row_get r c)) cols) = map fst cols"
    by (induction cols) auto
  show "c \<in> fst ` set cols \<Longrightarrow> map_of (map (\<lambda>(c, ty). (c, row_get r c)) cols) c = Some (row_get r c)"
    by (induction cols) auto
qed


lemma case_list_pair_Cons:
  "xs = (a, b) # rest \<Longrightarrow> (case xs of [] \<Rightarrow> e | (s, d) # r \<Rightarrow> f s d r) = f a b rest"
  by simp

lemma to_file_content:
  assumes tn: "table_name cls tid = Inr tn"
    and tb: "tables (store w) tn = Some tb"
    and nonempty: "t_rows tb \<noteq> []"
    and dcols: "distinct (map fst (t_columns tb))"
    and sidcol: "''sample_id'' \<in> fst ` set (t_columns tb)"
    and dsids: "distinct (map (\<lambda>r. row_get r ''sample_id'') (t_rows tb))"
    and strs: "\<forall>r \<in> set (t_rows tb). \<exists>s. row_get r ''sample_id'' = PyStr s"
  defines "headers \<equiv> sort (removeAll ''sample_id'' (map fst (t_columns tb)))"
    and "items \<equiv> sort_key fst
           (map (\<lambda>r. (py_str (row_get r ''sample_id''),
                       AList.delete ''sample_id'' (map (\<lambda>(c, ty). (c, row_get r c)) (t_columns tb))))
              (t_rows tb))"
  shows "to_file cls tid fp None w
         = (Inr (), w\<lparr>files := (files w)(fp \<mapsto>
               ''sample_name'' @ [tab] @ join [tab] headers @ [newline]
               @ concat (map (\<lambda>item. row_line headers item @ [newline]) items))\<rparr>)"
proof -
  define nrow where "nrow r = map (\<lambda>(c, ty). (c, row_get r c)) (t_columns tb)" for r
  have keys: "map fst (nrow r) = map fst (t_columns tb)" for r
    unfolding nrow_def using normalized_row(1) [OF dcols] .
  have look: "map_of (nrow r) c = Some (row_get r c)" if "c \<in> fst ` set (t_columns tb)" for r c
    unfolding nrow_def using normalized_row(2) [OF dcols that] .
  have rg: "row_get (nrow r) ''sample_id'' = row_get r ''sample_id''" for r
    using look [OF sidcol] by (simp add: row_get_def)
  have sel: "select_all (store w) tn = map nrow (t_rows tb)"
    using tb by (simp add: select_all_def nrow_def)
  have p1: "\<forall>r' \<in> set (map nrow (t_rows tb)). distinct (map fst r') \<and> map_of r' ''sample_id'' \<noteq> None"
    using keys dcols look [OF sidcol] by auto
  have p2: "distinct (map (\<lambda>r'. row_get r' ''sample_id'') (map nrow (t_rows tb)))"
    using dsids by (simp add: o_def rg)
  define mm where "mm = map (\<lambda>r. (row_get r ''sample_id'', AList.delete ''sample_id'' (nrow r))) (t_rows tb)"
  have tr: "transform_to_dict (select_all (store w) tn) = Inr mm"
    unfolding sel mm_def using transform_to_dict_rows [OF p1 p2] by (simp add: o_def rg)
  obtain r0 rs where rows: "t_rows tb = r0 # rs"
    using nonempty by (cases "t_rows tb") auto
  have mm_cons: "mm = (row_get r0 ''sample_id'', AList.delete ''sample_id'' (nrow r0))
                      # map (\<lambda>r. (row_get r ''sample_id'', AList.delete ''sample_id'' (nrow r))) rs"
    by (simp add: mm_def rows)
  have hd_keys: "sort (map fst (AList.delete ''sample_id'' (nrow r0))) = headers"
    by (simp add: headers_def delete_keys keys)
  have all_str: "\<not> (\<exists>kv \<in> set mm. str_key kv = None)"
  proof
    assume "\<exists>kv \<in> set mm. str_key kv = None"
    then obtain r where "r \<in> set (t_rows tb)"
      and "str_key (row_get r ''sample_id'', AList.delete ''sample_id'' (nrow r)) = None"
      unfolding mm_def by auto
    then show False using strs by auto
  qed
  have keyed: "map (the \<circ> str_key) mm
      = map (\<lambda>r. (py_str (row_get r ''sample_id''), AList.delete ''sample_id'' (nrow r))) (t_rows tb)"
    unfolding mm_def using strs by auto
  have items: "sort_key fst (map (the \<circ> str_key) mm) = items"
    unfolding keyed items_def nrow_def ..
  have hset: "set headers = fst ` set (t_columns tb) - {''sample_id''}"
    by (auto simp: headers_def)
  have "\<forall>item \<in> set items. \<forall>h \<in> set headers. map_of (snd item) h \<noteq> None"
  proof (intro ballI)
    fix item h
    assume "item \<in> set items" and h: "h \<in> set headers"
    then obtain r where "snd item = AList.delete ''sample_id'' (nrow r)"
      unfolding items_def nrow_def by auto
    moreover have "h \<noteq> ''sample_id''" and "h \<in> fst ` set (t_columns tb)"
      using h hset by auto
    ultimately show "map_of (snd item) h \<noteq> None"
      using look [of h] by simp
  qed
  then have wr: "write_rows headers items out
      = (None, out @ concat (map (\<lambda>item. row_line headers item @ [newline]) items))" for out
    by (rule write_rows_all)
  have no: "(\<exists>kv \<in> set mm. str_key kv = None) = False"
    using all_str by simp
  show ?thesis
    apply (simp only: to_file_def tn sum.case tr Let_def option.case)
    apply (subst case_list_pair_Cons [OF mm_cons])
    apply (simp only: hd_keys no if_False items wr prod.case option.case)
    apply simp
    done
qed


lemma clean_sample_name: "clean ''sample_name''"
  by (simp add: clean_def tab_def newline_def)

lemma parse_written:
  assumes ne: "headers \<noteq> []"
    and ch: "\<forall>h \<in> set headers. clean h"
    and ci: "\<forall>item \<in> set items. clean (fst item)
                \<and> (\<forall>h \<in> set headers. clean (py_str (row_get (snd item) h)))"
  shows "parse_template (''sample_name'' @ [tab] @ join [tab] headers @ [newline]
                          @ concat (map (\<lambda>item. row_line headers item @ [newline]) items))
         = Inr \<lparr>df_index = map fst items, df_columns = headers,
                df_values = map (\<lambda>item. map (\<lambda>h. PyStr (py_str (row_get (snd item) h))) headers) items\<rparr>"
proof -
  define fields where "fields item = fst item # map (\<lambda>h. py_str (row_get (snd item) h)) headers"
    for item :: "string \<times> row"
  define head where "head = ''sample_name'' # headers"
  have rl: "row_line headers item = join [tab] (fields item)" for item
    by (simp add: row_line_def fields_def)
  have hl: "''sample_name'' @ [tab] @ join [tab] headers = join [tab] head"
    using ne by (cases headers) (simp_all add: head_def)
  have cf: "\<forall>x \<in> set (fields item). clean x" if "item \<in> set items" for item
    using ci that by (auto simp: fields_def)
  have chd: "\<forall>x \<in> set head. clean x"
    using ch clean_sample_name by (simp add: head_def)
  have content: "''sample_name'' @ [tab] @ join [tab] headers @ [newline]
                   @ concat (map (\<lambda>item. row_line headers item @ [newline]) items)
      = concat (map (\<lambda>l. l @ [newline]) (join [tab] head # map (\<lambda>item. join [tab] (fields item)) items))"
    using hl by (simp add: rl o_def)
  have nl: "\<forall>l \<in> set (join [tab] head # map (\<lambda>item. join [tab] (fields item)) items). newline \<notin> set l"
  proof -
    have "newline \<notin> set (join [tab] head)"
      using chd by (intro join_tab_no_newline) (simp add: clean_def)
    moreover have "newline \<notin> set (join [tab] (fields item))" if "item \<in> set items" for item
      using cf [OF that] by (intro join_tab_no_newline) (simp add: clean_def)
    ultimately show ?thesis by auto
  qed
  have lines: "file_lines (concat (map (\<lambda>l. l @ [newline])
                  (join [tab] head # map (\<lambda>item. join [tab] (fields item)) items)))
      = join [tab] head # map (\<lambda>item. join [tab] (fields item)) items"
    using nl by (rule file_lines_concat)
  have sh: "split_char tab (join [tab] head) = head"
    using chd by (intro split_char_join) (simp_all add: clean_def head_def)
  have sr: "split_char tab (join [tab] (fields item)) = fields item" if "item \<in> set items" for item
    using cf [OF that] by (intro split_char_join) (simp_all add: clean_def fields_def)
  have rows: "map (split_char tab) (map (\<lambda>item. join [tab] (fields item)) items) = map fields items"
    using sr by simp
  have len: "(\<exists>r \<in> set (map fields items). length r \<noteq> length head) = False"
    by (auto simp: fields_def head_def)
  show ?thesis
    apply (simp only: content parse_template_def lines list.case sh rows Let_def)
    apply (simp only: len if_False)
    apply (simp add: fields_def head_def o_def)
    done
qed

subsection \<open>Writing and reading back\<close>

text \<open>
  C8, as stated: for every non-empty template, writing it with \<^verbatim>\<open>to_file\<close> and parsing
  the file again gives the same set of sample ids and the same values. \<^verbatim>\<open>to_file\<close>
  joins the values with tabs and ends the lines with newlines, without quoting. In the
  store below the template has the one sample \<open>1.SKB1\<close>, whose value holds a newline
  and a tab; the file that is written parses into the two samples \<open>1.SKB1\<close> and
  \<open>1.SKB9\<close>.
\<close>

theorem to_file_roundtrip_counterexample:
  "fst (to_file PrepTemplate 1 ''/templates/backup.txt'' None example_world_newline) = Inr ()
   \<and> map (\<lambda>r. row_get r ''sample_id'') (select_all (store example_world_newline) ''prep_1'')
       = [PyStr ''1.SKB1'']
   \<and> map_sum id df_index
         (load_template_to_dataframe ''/templates/backup.txt''
            (snd (to_file PrepTemplate 1 ''/templates/backup.txt'' None example_world_newline)))
       = Inr [''1.SKB1'', ''1.SKB9'']"
  by code_simp

text \<open>
  C8, amended: for every non-empty template whose column names and values, formatted by
  \<^verbatim>\<open>str\<close>, hold no tab and no newline, writing it with \<^verbatim>\<open>to_file\<close> and parsing the
  file again gives the same set of sample ids and, for every sample and column, the
  stored value formatted as a string. The table is one as a bulk load makes it: distinct
  column names, the column \<open>sample_id\<close> with distinct strings, and at least one other
  column.
\<close>

theorem to_file_roundtrip:
  assumes tn: "table_name cls tid = Inr tn"
    and tb: "tables (store w) tn = Some tb"
    and nonempty: "t_rows tb \<noteq> []"
    and dcols: "distinct (map fst (t_columns tb))"
    and sidcol: "''sample_id'' \<in> fst ` set (t_columns tb)"
    and other: "\<exists>c \<in> fst ` set (t_columns tb). c \<noteq> ''sample_id''"
    and dsids: "distinct (map (\<lambda>r. row_get r ''sample_id'') (t_rows tb))"
    and strs: "\<forall>r \<in> set (t_rows tb). \<exists>s. row_get r ''sample_id'' = PyStr s"
    and ccols: "\<forall>c \<in> fst ` set (t_columns tb). clean c"
    and cvals: "\<forall>r \<in> set (t_rows tb). \<forall>c \<in> fst ` set (t_columns tb). clean (py_str (row_get r c))"
  shows "\<exists>w' df. to_file cls tid fp None w = (Inr (), w')
           \<and> load_template_to_dataframe fp w' = Inr df
           \<and> PyStr ` set (df_index df) = (\<lambda>r. row_get r ''sample_id'') ` set (t_rows tb)
           \<and> (\<forall>r \<in> set (t_rows tb). \<forall>c \<in> fst ` set (t_columns tb). c \<noteq> ''sample_id'' \<longrightarrow>
                  df_cell df (py_str (row_get r ''sample_id'')) c = Some (PyStr (py_str (row_get r c))))"
proof -
  define nrow where "nrow = (\<lambda>r. map (\<lambda>(c, ty). (c, row_get r c)) (t_columns tb))"
  define headers where "headers = sort (removeAll ''sample_id'' (map fst (t_columns tb)))"
  define item where "item = (\<lambda>r. (py_str (row_get r ''sample_id''), AList.delete ''sample_id'' (nrow r)))"
  define items where "items = sort_key fst (map item (t_rows tb))"
  define content where "content = ''sample_name'' @ [tab] @ join [tab] headers @ [newline]
               @ concat (map (\<lambda>it. row_line headers it @ [newline]) items)"
  define df where "df = \<lparr>df_index = map fst items, df_columns = headers,
      df_values = map (\<lambda>it. map (\<lambda>h. PyStr (py_str (row_get (snd it) h))) headers) items\<rparr>"
  let ?w' = "w\<lparr>files := (files w)(fp \<mapsto> content)\<rparr>"
  have written: "to_file cls tid fp None w = (Inr (), ?w')"
    using to_file_content [OF tn tb nonempty dcols sidcol dsids strs, of fp]
    unfolding content_def headers_def items_def item_def nrow_def .
  have hset: "set headers = fst ` set (t_columns tb) - {''sample_id''}"
    by (auto simp: headers_def)
  have hne: "headers \<noteq> []"
    using other hset by (cases headers) auto
  have hclean: "\<forall>h \<in> set headers. clean h"
    using ccols hset by auto
  have rg: "row_get (snd (item r)) h = row_get r h" if "h \<in> set headers" for r h
  proof -
    have "h \<noteq> ''sample_id''" and "h \<in> fst ` set (t_columns tb)"
      using that hset by auto
    then show ?thesis
      using normalized_row(2) [OF dcols, of h r]
      by (simp add: item_def nrow_def row_get_def)
  qed
  have iset: "set items = item ` set (t_rows tb)"
    by (simp add: items_def)
  have iclean: "\<forall>it \<in> set items. clean (fst it)
                  \<and> (\<forall>h \<in> set headers. clean (py_str (row_get (snd it) h)))"
  proof (intro ballI conjI)
    fix it
    assume "it \<in> set items"
    then obtain r where r: "r \<in> set (t_rows tb)" and it: "it = item r"
      using iset by auto
    have "clean (py_str (row_get r ''sample_id''))"
      using cvals r sidcol by blast
    then show "clean (fst it)"
      by (simp add: it item_def)
    fix h
    assume h: "h \<in> set headers"
    then have "h \<in> fst ` set (t_columns tb)" using hset by auto
    then have "clean (py_str (row_get r h))"
      using cvals r by blast
    then show "clean (py_str (row_get (snd it) h))"
      by (simp add: it rg [OF h])
  qed
  have parsed: "parse_template content = Inr df"
    unfolding content_def df_def using hne hclean iclean by (rule parse_written)
  have loaded: "load_template_to_dataframe fp ?w' = Inr df"
    by (simp add: load_template_to_dataframe_def parsed)
  have idx: "PyStr ` set (df_index df) = (\<lambda>r. row_get r ''sample_id'') ` set (t_rows tb)"
  proof -
    have "PyStr (fst (item r)) = row_get r ''sample_id''" if "r \<in> set (t_rows tb)" for r
      using strs that by (auto simp: item_def)
    then have "PyStr ` fst ` item ` set (t_rows tb) = (\<lambda>r. row_get r ''sample_id'') ` set (t_rows tb)"
      by (auto simp: image_iff)
    then show ?thesis
      by (simp add: df_def iset)
  qed
  have inj: "inj_on (\<lambda>r. fst (item r)) (set (t_rows tb))"
  proof (rule inj_onI)
    fix r r'
    assume r: "r \<in> set (t_rows tb)" and r': "r' \<in> set (t_rows tb)"
      and eq: "fst (item r) = fst (item r')"
    from strs r r' obtain s s' where s: "row_get r ''sample_id'' = PyStr s"
      and s': "row_get r' ''sample_id'' = PyStr s'"
      by blast
    from eq s s' have "row_get r ''sample_id'' = row_get r' ''sample_id''"
      by (simp add: item_def)
    then show "r = r'"
      using dsids r r' by (simp add: distinct_map inj_on_def)
  qed
  have drows: "distinct (t_rows tb)"
    using dsids by (simp add: distinct_map)
  have "distinct (map fst (map item (t_rows tb)))"
    using inj drows by (simp add: distinct_map o_def)
  then have dist: "distinct (map fst items)"
    by (simp add: items_def map_sort_key)
  have cell: "df_cell df (py_str (row_get r ''sample_id'')) c = Some (PyStr (py_str (row_get r c)))"
    if r: "r \<in> set (t_rows tb)" and c: "c \<in> fst ` set (t_columns tb)" and ne: "c \<noteq> ''sample_id''"
    for r c
  proof -
    have ch: "c \<in> set headers" using c ne hset by simp
    have mem: "item r \<in> set items" using r iset by simp
    have "map_of (zip (map fst items)
             (map (\<lambda>it. map (\<lambda>h. PyStr (py_str (row_get (snd it) h))) headers) items)) (fst (item r))
          = Some (map (\<lambda>h. PyStr (py_str (row_get (snd (item r)) h))) headers)"
      using dist mem by (rule map_of_zip_distinct)
    moreover have "fst (item r) = py_str (row_get r ''sample_id'')"
      by (simp add: item_def)
    moreover have "map_of (zip headers (map (\<lambda>h. PyStr (py_str (row_get (snd (item r)) h))) headers)) c
          = Some (PyStr (py_str (row_get r c)))"
      using ch by (simp add: map_of_zip_map rg)
    ultimately show ?thesis
      by (simp add: df_cell_def df_def)
  qed
  show ?thesis
    using written loaded idx cell by blast
qed

theorem to_file_roundtrip_witness:
  "table_name PrepTemplate 1 = Inr ''prep_1''
   \<and> tables (store example_world) ''prep_1''
       = Some \<lparr>t_columns = [(''sample_id'', ''varchar''), (''barcodesequence'', ''varchar'')],
                t_rows = [[(''sample_id'', PyStr ''1.SKB1''), (''barcodesequence'', PyStr ''ACGT'')],
                          [(''sample_id'', PyStr ''1.SKB2''), (''barcodesequence'', PyStr ''TTGA'')]]\<rparr>
   \<and> (\<exists>w' df. to_file PrepTemplate 1 ''/templates/backup.txt'' None example_world = (Inr (), w')
          \<and> load_template_to_dataframe ''/templates/backup.txt'' w' = Inr df
          \<and> PyStr ` set (df_index df) = {PyStr ''1.SKB1'', PyStr ''1.SKB2''}
          \<and> df_cell df ''1.SKB1'' ''barcodesequence'' = Some (PyStr ''ACGT'')
          \<and> df_cell df ''1.SKB2'' ''barcodesequence'' = Some (PyStr ''TTGA''))"
proof -
  let ?tb = "\<lparr>t_columns = [(''sample_id'', ''varchar''), (''barcodesequence'', ''varchar'')],
                t_rows = [[(''sample_id'', PyStr ''1.SKB1''), (''barcodesequence'', PyStr ''ACGT'')],
                          [(''sample_id'', PyStr ''1.SKB2''), (''barcodesequence'', PyStr ''TTGA'')]]\<rparr>"
  have h1: "table_name PrepTemplate 1 = Inr ''prep_1''"
    by code_simp
  have h2: "tables (store example_world) ''prep_1'' = Some ?tb"
    by code_simp
  have h3: "t_rows ?tb \<noteq> []"
    by simp
  have h4: "distinct (map fst (t_columns ?tb))"
    by simp
  have h5: "''sample_id'' \<in> fst ` set (t_columns ?tb)"
    by simp
  have h6: "\<exists>c \<in> fst ` set (t_columns ?tb). c \<noteq> ''sample_id''"
    by simp
  have h7: "distinct (map (\<lambda>r. row_get r ''sample_id'') (t_rows ?tb))"
    by code_simp
  have h8: "\<forall>r \<in> set (t_rows ?tb). \<exists>s. row_get r ''sample_id'' = PyStr s"
    by (simp add: row_get_def)
  have h9: "\<forall>c \<in> fst ` set (t_columns ?tb). clean c"
    by code_simp
  have h10: "\<forall>r \<in> set (t_rows ?tb). \<forall>c \<in> fst ` set (t_columns ?tb). clean (py_str (row_get r c))"
    by code_simp
  have ids: "(\<lambda>r. row_get r ''sample_id'') ` set (t_rows ?tb) = {PyStr ''1.SKB1'', PyStr ''1.SKB2''}"
    by (simp add: row_get_def)
  from to_file_roundtrip [OF h1 h2 h3 h4 h5 h6 h7 h8 h9 h10, of "''/templates/backup.txt''"]
  obtain w' df where r: "to_file PrepTemplate 1 ''/templates/backup.txt'' None example_world = (Inr (), w')"
    "load_template_to_dataframe ''/templates/backup.txt'' w' = Inr df"
    "PyStr ` set (df_index df) = (\<lambda>r. row_get r ''sample_id'') ` set (t_rows ?tb)"
    "\<forall>r \<in> set (t_rows ?tb). \<forall>c \<in> fst ` set (t_columns ?tb). c \<noteq> ''sample_id'' \<longrightarrow>
        df_cell df (py_str (row_get r ''sample_id'')) c = Some (PyStr (py_str (row_get r c)))"
    by blast
  have c1: "df_cell df ''1.SKB1'' ''barcodesequence'' = Some (PyStr ''ACGT'')"
    using r(4) by (simp add: row_get_def)
  have c2: "df_cell df ''1.SKB2'' ''barcodesequence'' = Some (PyStr ''TTGA'')"
    using r(4) by (simp add: row_get_def)
  show ?thesis
    using h1 h2 r(1,2) r(3) [unfolded ids] c1 c2 by blast
qed

end
